theory Spec2Isabelle
  imports Complex_Main "HOL-Library.Multiset"
begin

section \<open>JavaScript values\<close>

text \<open>
  The attribute bags of users, nodes and edges are \<^verbatim>\<open>Record<string, any>\<close>. Every
  value that reaches the engine has passed through \<^verbatim>\<open>JSON.parse(JSON.stringify(v))\<close>
  (\<^verbatim>\<open>clone\<close> in dataStore.ts), so it is a JSON value: numbers are finite, and there
  are no functions. An object is the list of its entries, with distinct keys. Strings
  are byte lists; text outside ASCII stands in its UTF-8 encoding, which preserves
  equality and the substring relation of well-formed strings.
\<close>

datatype jsval =
    JUndefined
  | JNull
  | JBool bool
  | JNum rat
  | JStr string
  | JArr "jsval list"
  | JObj "(string \<times> jsval) list"

text \<open>\<^verbatim>\<open>!!v\<close>: the falsy values are undefined, null, false, 0 and the empty string.\<close>

fun truthy :: "jsval \<Rightarrow> bool" where
  "truthy JUndefined = False"
| "truthy JNull = False"
| "truthy (JBool b) = b"
| "truthy (JNum r) = (r \<noteq> 0)"
| "truthy (JStr s) = (s \<noteq> [])"
| "truthy (JArr _) = True"
| "truthy (JObj _) = True"

text \<open>
  \<^verbatim>\<open>a === b\<close>. Arrays and objects compare by reference; the two operands of every
  comparison below come out of different \<^verbatim>\<open>clone\<close> calls, so two arrays or two
  objects are never the same reference.
\<close>

definition strict_eq :: "jsval \<Rightarrow> jsval \<Rightarrow> bool" where
  "strict_eq a b = (case a of JArr _ \<Rightarrow> False | JObj _ \<Rightarrow> False | _ \<Rightarrow> a = b)"

text \<open>
  \<^verbatim>\<open>v?.key\<close> for the attribute names the engine reads (none of them is a member of
  a prototype): undefined unless \<open>v\<close> is an object that has the key.
\<close>

fun get_attr :: "jsval \<Rightarrow> string \<Rightarrow> jsval" where
  "get_attr (JObj kvs) k = (case map_of kvs k of None \<Rightarrow> JUndefined | Some v \<Rightarrow> v)"
| "get_attr _ k = JUndefined"

text \<open>\<^verbatim>\<open>a || b\<close> on values.\<close>

definition js_or :: "jsval \<Rightarrow> jsval \<Rightarrow> jsval" where
  "js_or a b = (if truthy a then a else b)"

section \<open>Data model (types.ts)\<close>

record User =
  u_id :: string
  username :: string
  clearance_level :: string
  u_attributes :: jsval
  query_budget :: int
  budget_reset_at :: string

record GraphNode =
  n_id :: string
  n_logical_id :: string
  n_classification_level :: string
  entity_type :: string
  n_name :: string
  n_attributes :: jsval
  n_created_at :: string
  n_updated_at :: string

record GraphEdge =
  e_id :: string
  e_logical_id :: string
  e_classification_level :: string
  source_node_id :: string
  target_node_id :: string
  relation_type :: string
  e_attributes :: jsval
  e_created_at :: string

record AuditLog =
  a_id :: string
  user_id :: string
  query_text :: string
  query_type :: string
  result_count :: nat
  access_granted :: bool
  denial_reason :: "string option"
  a_created_at :: string

text \<open>The argument type \<^verbatim>\<open>GraphNode | GraphEdge\<close> of the sector check.\<close>

datatype data_item = NodeItem GraphNode | EdgeItem GraphEdge

fun item_attributes :: "data_item \<Rightarrow> jsval" where
  "item_attributes (NodeItem n) = n_attributes n"
| "item_attributes (EdgeItem e) = e_attributes e"

section \<open>The JavaScript runtime\<close>

text \<open>
  What the engine (not this repository) computes is a parameter of the model: Unicode
  case mapping, conversion between values, strings and numbers, date parsing and
  printing, the date arithmetic in the local time zone, the regular-expression
  matcher applied to the patterns of the source, the floating-point distance
  formula, the text of the built-in members of \<^verbatim>\<open>Object.prototype\<close>, and the order
  in which \<^verbatim>\<open>sort\<close> leaves an array under a comparator that is no consistent order.
  Every theorem below holds for every runtime. A number that may be NaN is an
  \<open>option\<close>, with \<open>None\<close> for NaN.
\<close>

text \<open>The regular expressions of queryEngine.ts, by the place they stand in.\<close>

datatype pattern =
    RX_sector_ru       \<comment> \<open>extractSectorFilters, first pattern (flags gi)\<close>
  | RX_sector_en       \<comment> \<open>extractSectorFilters, \<^verbatim>\<open>/sector\s+([a-z])/gi\<close>\<close>
  | RX_category        \<comment> \<open>extractCategoryFilters\<close>
  | RX_window_last     \<comment> \<open>extractTimeWindow, patterns[0]\<close>
  | RX_window_za       \<comment> \<open>extractTimeWindow, patterns[1]\<close>
  | RX_window_within   \<comment> \<open>extractTimeWindow, patterns[2]\<close>
  | RX_range_from      \<comment> \<open>extractTimeRange, first alternative\<close>
  | RX_range_between   \<comment> \<open>extractTimeRange, second alternative\<close>
  | RX_limit           \<comment> \<open>extractLimit\<close>
  | RX_comparison      \<comment> \<open>extractComparisons (flags giu)\<close>
  | RX_geo_pair        \<comment> \<open>extractGeoFilter, bare pair\<close>
  | RX_geo_latlon      \<comment> \<open>extractGeoFilter, lat=.. lon=..\<close>
  | RX_radius          \<comment> \<open>extractGeoFilter, radius\<close>
  | RX_node_coord      \<comment> \<open>extractNodeCoordinates\<close>
  | RX_token_sep       \<comment> \<open>parseNaturalLanguage, \<^verbatim>\<open>/[\s,]+/u\<close>\<close>

text \<open>A match: the matched text and the capture groups (no pattern has more than three).\<close>

record rx_match =
  whole :: string
  g1 :: string
  g2 :: string
  g3 :: string

record js_runtime =
  toLowerCase :: "string \<Rightarrow> string"
  toUpperCase :: "string \<Rightarrow> string"
  js_toString :: "jsval \<Rightarrow> string"          \<comment> \<open>\<^verbatim>\<open>v.toString()\<close> of a value that is no string\<close>
  js_Number :: "string \<Rightarrow> rat option"         \<comment> \<open>\<^verbatim>\<open>Number(s)\<close>\<close>
  number_toString :: "rat \<Rightarrow> string"          \<comment> \<open>a number in a template literal\<close>
  toFixed3 :: "rat \<Rightarrow> string"                 \<comment> \<open>\<^verbatim>\<open>x.toFixed(3)\<close>\<close>
  date_parse :: "string \<Rightarrow> int option"        \<comment> \<open>\<^verbatim>\<open>Date.parse(s)\<close>, milliseconds\<close>
  toISOString :: "int \<Rightarrow> string"              \<comment> \<open>\<^verbatim>\<open>new Date(t).toISOString()\<close>\<close>
  toLocaleTimeString :: "int option \<Rightarrow> string"
  ref_minus_hours :: "rat \<Rightarrow> int option"
     \<comment> \<open>\<^verbatim>\<open>d = new Date(DATA_REFERENCE_TIME); d.setHours(d.getHours() - h)\<close>\<close>
  ref_set_hours :: "rat \<Rightarrow> rat \<Rightarrow> int option"
     \<comment> \<open>\<^verbatim>\<open>d = new Date(DATA_REFERENCE_TIME); d.setHours(h, m, 0, 0); d.getTime()\<close>\<close>
  regex_exec :: "pattern \<Rightarrow> string \<Rightarrow> rx_match list"
     \<comment> \<open>the successive matches of a pattern in a string, in order\<close>
  regex_split :: "pattern \<Rightarrow> string \<Rightarrow> string list"
  distance_km :: "rat \<Rightarrow> rat \<Rightarrow> rat \<Rightarrow> rat \<Rightarrow> rat option"
     \<comment> \<open>calculateDistanceKm: the haversine formula in floating point\<close>
  member_toString :: "string \<Rightarrow> string"
     \<comment> \<open>\<^verbatim>\<open>String(Object.prototype[k])\<close> for the name \<open>k\<close> of a member of the prototype\<close>
  sort_inconsistent :: "int option list \<Rightarrow> nat list"
     \<comment> \<open>the order \<^verbatim>\<open>sort\<close> gives to the positions of an array whose keys are these,
         under the comparator \<^verbatim>\<open>(a, b) => key(b) - key(a)\<close>, when a key is NaN\<close>

text \<open>\<^verbatim>\<open>s.match(re)\<close> of a pattern without the g flag: the first match.\<close>

definition regex_match :: "js_runtime \<Rightarrow> pattern \<Rightarrow> string \<Rightarrow> rx_match option" where
  "regex_match rt p s = (case regex_exec rt p s of [] \<Rightarrow> None | m # _ \<Rightarrow> Some m)"

text \<open>\<^verbatim>\<open>v.toString()\<close> and \<^verbatim>\<open>Number(v)\<close> on values.\<close>

definition valueToString :: "js_runtime \<Rightarrow> jsval \<Rightarrow> string" where
  "valueToString rt v = (case v of JStr s \<Rightarrow> s | _ \<Rightarrow> js_toString rt v)"

definition toNumber :: "js_runtime \<Rightarrow> jsval \<Rightarrow> rat option" where
  "toNumber rt v =
     (case v of
        JNum r \<Rightarrow> Some r
      | JStr s \<Rightarrow> js_Number rt s
      | JBool b \<Rightarrow> Some (if b then 1 else 0)
      | JNull \<Rightarrow> Some 0
      | JUndefined \<Rightarrow> None
      | _ \<Rightarrow> js_Number rt (js_toString rt v))"

text \<open>\<^verbatim>\<open>s.includes(k)\<close>.\<close>

fun starts_with :: "string \<Rightarrow> string \<Rightarrow> bool" where
  "starts_with s [] = True"
| "starts_with [] (k # ks) = False"
| "starts_with (c # cs) (k # ks) = (c = k \<and> starts_with cs ks)"

fun str_includes :: "string \<Rightarrow> string \<Rightarrow> bool" where
  "str_includes [] k = (k = [])"
| "str_includes (c # cs) k = (starts_with (c # cs) k \<or> str_includes cs k)"

text \<open>
  A JavaScript \<^verbatim>\<open>Map\<close> (and a \<^verbatim>\<open>Set\<close>) keeps its entries in the order of first
  insertion; setting a key that is present replaces the value where it stands.
\<close>

fun map_set :: "'k \<Rightarrow> 'v \<Rightarrow> ('k \<times> 'v) list \<Rightarrow> ('k \<times> 'v) list" where
  "map_set k v [] = [(k, v)]"
| "map_set k v ((k', v') # kvs) =
     (if k' = k then (k, v) # kvs else (k', v') # map_set k v kvs)"

definition map_values :: "('k \<times> 'v) list \<Rightarrow> 'v list" where
  "map_values m = map snd m"

definition set_add :: "'a \<Rightarrow> 'a list \<Rightarrow> 'a list" where
  "set_add x xs = (if x \<in> set xs then xs else xs @ [x])"

definition set_of_list :: "'a list \<Rightarrow> 'a list" where
  "set_of_list xs = foldl (\<lambda>acc x. set_add x acc) [] xs"

text \<open>
  \<^verbatim>\<open>a < b\<close> on strings: by code units. On UTF-8 bytes this is the order of code
  points, which is the order of UTF-16 code units for text of the Basic Multilingual
  Plane.
\<close>

fun str_lt :: "string \<Rightarrow> string \<Rightarrow> bool" where
  "str_lt [] [] = False"
| "str_lt [] (b # bs) = True"
| "str_lt (a # as) [] = False"
| "str_lt (a # as) (b # bs) =
     ((of_char a :: nat) < of_char b \<or> (a = b \<and> str_lt as bs))"

subsection \<open>Tables of numbers read with a computed key\<close>

text \<open>
  \<^verbatim>\<open>CLEARANCE_LEVELS\<close>, \<^verbatim>\<open>CLEARANCE_ORDER\<close> and \<^verbatim>\<open>THREAT_ORDER\<close> are object literals
  read as \<^verbatim>\<open>table[key]\<close>, with a key that comes from the data. An object literal
  inherits from \<^verbatim>\<open>Object.prototype\<close>, so a key that is no entry of the table but names
  a member of the prototype finds that member: a built-in function, or for
  \<^verbatim>\<open>__proto__\<close> the prototype object itself. The names are those of the standard
  library (ECMA-262, 20.1.3 and B.2.2).
\<close>

definition OBJECT_PROTOTYPE_MEMBERS :: "string list" where
  "OBJECT_PROTOTYPE_MEMBERS =
     [''constructor'', ''hasOwnProperty'', ''isPrototypeOf'', ''propertyIsEnumerable'',
      ''toLocaleString'', ''toString'', ''valueOf'', ''__proto__'',
      ''__defineGetter__'', ''__defineSetter__'', ''__lookupGetter__'', ''__lookupSetter__'']"

text \<open>
  What a lookup finds: a number of the table, or an inherited member, held as the
  string it converts to; \<open>None\<close> is \<^verbatim>\<open>undefined\<close>.
\<close>

datatype table_value = TNum nat | TMember string

definition table_get :: "js_runtime \<Rightarrow> (string \<times> nat) list \<Rightarrow> string \<Rightarrow> table_value option" where
  "table_get rt table k =
     (case map_of table k of
        Some n \<Rightarrow> Some (TNum n)
      | None \<Rightarrow> if k \<in> set OBJECT_PROTOTYPE_MEMBERS then Some (TMember (member_toString rt k))
                else None)"

text \<open>\<^verbatim>\<open>!!v\<close>, \<^verbatim>\<open>v || d\<close> and \<^verbatim>\<open>v ?? d\<close> on what a lookup finds: a member is an object.\<close>

definition truthy_lookup :: "table_value option \<Rightarrow> bool" where
  "truthy_lookup v = (case v of None \<Rightarrow> False | Some (TNum n) \<Rightarrow> n \<noteq> 0 | Some (TMember s) \<Rightarrow> True)"

definition lookup_or :: "table_value option \<Rightarrow> table_value \<Rightarrow> table_value" where
  "lookup_or v d = (case v of None \<Rightarrow> d | Some x \<Rightarrow> if truthy_lookup v then x else d)"

definition lookup_nullish :: "table_value option \<Rightarrow> table_value \<Rightarrow> table_value" where
  "lookup_nullish v d = (case v of None \<Rightarrow> d | Some x \<Rightarrow> x)"

text \<open>
  The relational operators, by the algorithm IsLessThan of the language: \<open>None\<close> is
  its result \<^verbatim>\<open>undefined\<close>, for an operand that is NaN. Two numbers compare as
  numbers. An object is first converted to a primitive, here the string
  \<open>member_toString\<close>; two strings compare as strings. Against a number the string is
  converted to a number, and it is NaN: the text of a built-in function begins with
  \<^verbatim>\<open>function\<close> and that of the prototype object is \<^verbatim>\<open>[object Object]\<close>.
\<close>

fun js_less :: "table_value \<Rightarrow> table_value \<Rightarrow> bool option" where
  "js_less (TNum x) (TNum y) = Some (x < y)"
| "js_less (TMember s) (TMember t) = Some (str_lt s t)"
| "js_less (TNum x) (TMember t) = None"
| "js_less (TMember s) (TNum y) = None"

definition js_lt :: "table_value \<Rightarrow> table_value \<Rightarrow> bool" where
  "js_lt a b = (js_less a b = Some True)"

definition js_gt :: "table_value \<Rightarrow> table_value \<Rightarrow> bool" where
  "js_gt a b = (js_less b a = Some True)"

definition js_le :: "table_value \<Rightarrow> table_value \<Rightarrow> bool" where
  "js_le a b = (js_less b a = Some False)"

definition js_ge :: "table_value \<Rightarrow> table_value \<Rightarrow> bool" where
  "js_ge a b = (js_less a b = Some False)"

section \<open>Access policy (policy.ts)\<close>

text \<open>
  The table \<^verbatim>\<open>CLEARANCE_LEVELS\<close>; \<open>checkClearance\<close> reads it as
  \<^verbatim>\<open>CLEARANCE_LEVELS[level] || 0\<close> and compares with \<^verbatim>\<open>>=\<close>.
\<close>

definition CLEARANCE_LEVELS :: "(string \<times> nat) list" where
  "CLEARANCE_LEVELS = [(''UNCLASSIFIED'', 0), (''CONFIDENTIAL'', 1), (''SECRET'', 2)]"

definition checkClearance :: "js_runtime \<Rightarrow> string \<Rightarrow> string \<Rightarrow> bool" where
  "checkClearance rt userLevel dataLevel =
     (let userClearance = lookup_or (table_get rt CLEARANCE_LEVELS userLevel) (TNum 0);
          dataClearance = lookup_or (table_get rt CLEARANCE_LEVELS dataLevel) (TNum 0)
      in js_ge userClearance dataClearance)"

definition checkSectorAccess :: "User \<Rightarrow> data_item \<Rightarrow> bool" where
  "checkSectorAccess user data =
     (let userSector = get_attr (u_attributes user) ''sector'';
          userRole = get_attr (u_attributes user) ''role''
      in if strict_eq userRole (JStr ''commander'') then True
         else if \<not> truthy userSector then False
         else let dataSector = get_attr (item_attributes data) ''sector''
              in if \<not> truthy dataSector then True
                 else strict_eq userSector dataSector)"

definition filterAccessibleNodes :: "js_runtime \<Rightarrow> User \<Rightarrow> GraphNode list \<Rightarrow> GraphNode list" where
  "filterAccessibleNodes rt user nodes =
     filter (\<lambda>node.
        if \<not> checkClearance rt (clearance_level user) (n_classification_level node) then False
        else checkSectorAccess user (NodeItem node)) nodes"

definition filterAccessibleEdges :: "js_runtime \<Rightarrow> User \<Rightarrow> GraphEdge list \<Rightarrow> GraphEdge list" where
  "filterAccessibleEdges rt user edges =
     filter (\<lambda>edge.
        if \<not> checkClearance rt (clearance_level user) (e_classification_level edge) then False
        else checkSectorAccess user (EdgeItem edge)) edges"

definition checkKAnonymity :: "nat \<Rightarrow> nat \<Rightarrow> bool" where
  "checkKAnonymity resultCount minK = (resultCount \<ge> minK)"

definition checkQueryBudget :: "User \<Rightarrow> bool" where
  "checkQueryBudget user = (query_budget user > 0)"

section \<open>The in-memory store (dataStore.ts)\<close>

record Store =
  usersStore :: "User list"
  nodesStore :: "GraphNode list"
  edgesStore :: "GraphEdge list"
  auditLogStore :: "AuditLog list"

text \<open>\<^verbatim>\<open>xs.findIndex(p)\<close>; \<^verbatim>\<open>xs.find(p)\<close> is the element at that index.\<close>

fun find_index :: "('a \<Rightarrow> bool) \<Rightarrow> 'a list \<Rightarrow> nat option" where
  "find_index P [] = None"
| "find_index P (x # xs) = (if P x then Some 0 else map_option Suc (find_index P xs))"

definition getMaxBudget :: "string \<Rightarrow> int" where
  "getMaxBudget level =
     (if level = ''SECRET'' then 20 else if level = ''CONFIDENTIAL'' then 8 else 5)"

text \<open>
  \<open>maybeResetBudget\<close> mutates the user object of the store; here it returns the new
  record. \<open>now\<close> is the value of \<^verbatim>\<open>Date.now()\<close>; \<^verbatim>\<open>Number.isFinite(resetAt)\<close> fails
  exactly when the stored timestamp does not parse.
\<close>

definition maybeResetBudget :: "js_runtime \<Rightarrow> int \<Rightarrow> User \<Rightarrow> User" where
  "maybeResetBudget rt now user =
     (case date_parse rt (budget_reset_at user) of
        None \<Rightarrow> user
      | Some resetAt \<Rightarrow>
          if now \<ge> resetAt
          then let maxBudget = getMaxBudget (clearance_level user)
               in user\<lparr> query_budget := maxBudget,
                         budget_reset_at := toISOString rt (now + 60 * 60 * 1000) \<rparr>
          else user)"

text \<open>
  The reads: the result is the clone handed to the caller and the store after the
  reset check.
\<close>

definition findUserByUsername ::
  "js_runtime \<Rightarrow> int \<Rightarrow> string \<Rightarrow> Store \<Rightarrow> User option \<times> Store" where
  "findUserByUsername rt now name st =
     (case find_index (\<lambda>u. toLowerCase rt (username u) = toLowerCase rt name) (usersStore st) of
        None \<Rightarrow> (None, st)
      | Some i \<Rightarrow>
          let user = maybeResetBudget rt now (usersStore st ! i)
          in (Some user, st\<lparr> usersStore := (usersStore st)[i := user] \<rparr>))"

definition findUserById ::
  "js_runtime \<Rightarrow> int \<Rightarrow> string \<Rightarrow> Store \<Rightarrow> User option \<times> Store" where
  "findUserById rt now ident st =
     (case find_index (\<lambda>u. u_id u = ident) (usersStore st) of
        None \<Rightarrow> (None, st)
      | Some i \<Rightarrow>
          let user = maybeResetBudget rt now (usersStore st ! i)
          in (Some user, st\<lparr> usersStore := (usersStore st)[i := user] \<rparr>))"

definition decrementBudget :: "js_runtime \<Rightarrow> int \<Rightarrow> string \<Rightarrow> Store \<Rightarrow> Store" where
  "decrementBudget rt now ident st =
     (case find_index (\<lambda>u. u_id u = ident) (usersStore st) of
        None \<Rightarrow> st
      | Some i \<Rightarrow>
          let user = maybeResetBudget rt now (usersStore st ! i);
              user' = (if query_budget user > 0
                       then user\<lparr> query_budget := query_budget user - 1 \<rparr> else user)
          in st\<lparr> usersStore := (usersStore st)[i := user'] \<rparr>)"

definition getAllNodes :: "Store \<Rightarrow> GraphNode list" where
  "getAllNodes st = nodesStore st"

definition getAllEdges :: "Store \<Rightarrow> GraphEdge list" where
  "getAllEdges st = edgesStore st"

text \<open>
  \<open>insertAuditLog\<close>: \<open>rand\<close> is \<^verbatim>\<open>Math.random().toString(36).slice(2, 10)\<close> and
  \<open>created\<close> is \<^verbatim>\<open>new Date().toISOString()\<close>; the entry goes to the front.
\<close>

definition generateId :: "string \<Rightarrow> string \<Rightarrow> string" where
  "generateId prefix rand = prefix @ ''-'' @ rand"

definition insertAuditLog ::
  "string \<Rightarrow> string \<Rightarrow> string \<Rightarrow> string \<Rightarrow> string \<Rightarrow> nat \<Rightarrow> bool \<Rightarrow> string option \<Rightarrow> Store \<Rightarrow> Store" where
  "insertAuditLog rand created uid qtext qtype resultCount granted denialReason st =
     st\<lparr> auditLogStore :=
          \<lparr> a_id = generateId ''audit'' rand, user_id = uid, query_text = qtext,
            query_type = qtype, result_count = resultCount, access_granted = granted,
            denial_reason = denialReason, a_created_at = created \<rparr> # auditLogStore st \<rparr>"







section \<open>Graph view reconciler (queryEngine.ts, getGraphData)\<close>

definition CLEARANCE_ORDER :: "(string \<times> nat) list" where
  "CLEARANCE_ORDER = [(''UNCLASSIFIED'', 0), (''CONFIDENTIAL'', 1), (''SECRET'', 2)]"

definition LEVEL_SEQUENCE :: "string list" where
  "LEVEL_SEQUENCE = [''UNCLASSIFIED'', ''CONFIDENTIAL'', ''SECRET'']"

text \<open>\<^verbatim>\<open>CLEARANCE_ORDER[level] ?? 0\<close>.\<close>

definition order_rank :: "js_runtime \<Rightarrow> string \<Rightarrow> table_value" where
  "order_rank rt level = lookup_nullish (table_get rt CLEARANCE_ORDER level) (TNum 0)"

datatype view_mode = Virtual | Level | Overlay

record GraphDataOptions =
  opt_mode :: view_mode
  opt_level :: "string option"
  overlayLevels :: "string list option"

text \<open>The branch \<^verbatim>\<open>options.mode === 'level'\<close>.\<close>

definition level_view ::
  "GraphDataOptions \<Rightarrow> string list \<Rightarrow> GraphNode list \<Rightarrow> GraphEdge list \<Rightarrow>
   GraphNode list \<times> GraphEdge list" where
  "level_view options accessibleLevels accessibleNodes accessibleEdges =
     (let fallback = (if accessibleLevels = [] then ''UNCLASSIFIED'' else last accessibleLevels);
          targetLevel = (case opt_level options of
                           None \<Rightarrow> fallback
                         | Some l \<Rightarrow> if l \<noteq> [] \<and> l \<in> set accessibleLevels then l else fallback);
          nodes = filter (\<lambda>node. n_classification_level node = targetLevel) accessibleNodes;
          nodeIds = set (map n_id nodes);
          edges = filter (\<lambda>edge. e_classification_level edge = targetLevel \<and>
                                   source_node_id edge \<in> nodeIds \<and>
                                   target_node_id edge \<in> nodeIds) accessibleEdges
      in (nodes, edges))"

text \<open>The branch \<^verbatim>\<open>options.mode === 'overlay'\<close>.\<close>

definition overlay_view ::
  "GraphDataOptions \<Rightarrow> string list \<Rightarrow> GraphNode list \<Rightarrow> GraphEdge list \<Rightarrow>
   GraphNode list \<times> GraphEdge list" where
  "overlay_view options accessibleLevels accessibleNodes accessibleEdges =
     (let requestedLevels = (case overlayLevels options of
                               None \<Rightarrow> []
                             | Some ls \<Rightarrow> if length ls > 0
                                          then filter (\<lambda>l. l \<in> set accessibleLevels) ls else []);
          effectiveLevels = (if length requestedLevels > 0 then requestedLevels
                             else accessibleLevels);
          levelSet = set effectiveLevels;
          nodes = filter (\<lambda>node. n_classification_level node \<in> levelSet) accessibleNodes;
          nodeIds = set (map n_id nodes);
          edges = filter (\<lambda>edge. e_classification_level edge \<in> levelSet \<and>
                                   source_node_id edge \<in> nodeIds \<and>
                                   target_node_id edge \<in> nodeIds) accessibleEdges
      in (nodes, edges))"

text \<open>
  The virtual view. \<open>choose_node\<close> is the body of the loop that fills \<open>nodeChoice\<close>,
  \<open>repoint_edge\<close> the body of the loop that fills \<open>edgesMap\<close>.
\<close>

definition choose_node ::
  "js_runtime \<Rightarrow> (string \<times> GraphNode) list \<Rightarrow> GraphNode \<Rightarrow> (string \<times> GraphNode) list" where
  "choose_node rt nodeChoice node =
     (let current = map_of nodeChoice (n_logical_id node);
          rank = order_rank rt (n_classification_level node)
      in case current of
           None \<Rightarrow> map_set (n_logical_id node) node nodeChoice
         | Some cur \<Rightarrow>
             if js_gt rank (order_rank rt (n_classification_level cur))
             then map_set (n_logical_id node) node nodeChoice
             else nodeChoice)"

definition repoint_edge ::
  "js_runtime \<Rightarrow> (string \<times> GraphNode) list \<Rightarrow> (string \<times> GraphNode) list \<Rightarrow>
   (string \<times> GraphEdge) list \<Rightarrow> GraphEdge \<Rightarrow> (string \<times> GraphEdge) list" where
  "repoint_edge rt nodeById logicalToNode edgesMap edge =
     (case map_of nodeById (source_node_id edge) of
        None \<Rightarrow> edgesMap
      | Some sourceOriginal \<Rightarrow>
     (case map_of nodeById (target_node_id edge) of
        None \<Rightarrow> edgesMap
      | Some targetOriginal \<Rightarrow>
     (case map_of logicalToNode (n_logical_id sourceOriginal) of
        None \<Rightarrow> edgesMap
      | Some bestSource \<Rightarrow>
     (case map_of logicalToNode (n_logical_id targetOriginal) of
        None \<Rightarrow> edgesMap
      | Some bestTarget \<Rightarrow>
          let key = (if e_logical_id edge \<noteq> [] then e_logical_id edge
                     else n_logical_id bestSource @ ''::'' @ n_logical_id bestTarget @ ''::'' @
                          relation_type edge);
              candidate = edge\<lparr> source_node_id := n_id bestSource,
                                target_node_id := n_id bestTarget \<rparr>
          in case map_of edgesMap key of
               None \<Rightarrow> map_set key candidate edgesMap
             | Some existing \<Rightarrow>
                 if js_gt (order_rank rt (e_classification_level candidate))
                          (order_rank rt (e_classification_level existing))
                 then map_set key candidate edgesMap
                 else edgesMap))))"

definition virtual_view ::
  "js_runtime \<Rightarrow> GraphNode list \<Rightarrow> GraphNode list \<Rightarrow> GraphEdge list \<Rightarrow>
   GraphNode list \<times> GraphEdge list" where
  "virtual_view rt allNodes accessibleNodes accessibleEdges =
     (let nodeById = foldl (\<lambda>m node. map_set (n_id node) node m) [] allNodes;
          nodeChoice = foldl (choose_node rt) [] accessibleNodes;
          nodes = map_values nodeChoice;
          logicalToNode = foldl (\<lambda>m node. map_set (n_logical_id node) node m) [] nodes;
          edgesMap = foldl (repoint_edge rt nodeById logicalToNode) [] accessibleEdges
      in (nodes, map_values edgesMap))"

text \<open>
  \<open>userMaxRank\<close> is \<^verbatim>\<open>CLEARANCE_ORDER[user.clearance_level] ?? CLEARANCE_ORDER.UNCLASSIFIED\<close>,
  the latter being 0; in \<open>accessibleLevels\<close> a level that the table does not have
  would compare as \<^verbatim>\<open>undefined\<close>, which is never \<^verbatim>\<open><=\<close>.
\<close>

definition getGraphData ::
  "js_runtime \<Rightarrow> Store \<Rightarrow> User \<Rightarrow> GraphDataOptions \<Rightarrow> GraphNode list \<times> GraphEdge list" where
  "getGraphData rt st user options =
     (let allNodes = getAllNodes st;
          allEdges = getAllEdges st;
          accessibleNodes = filterAccessibleNodes rt user allNodes;
          accessibleEdges = filterAccessibleEdges rt user allEdges;
          userMaxRank = lookup_nullish (table_get rt CLEARANCE_ORDER (clearance_level user)) (TNum 0);
          accessibleLevels = filter (\<lambda>level. case table_get rt CLEARANCE_ORDER level of
                                                None \<Rightarrow> False
                                              | Some r \<Rightarrow> js_le r userMaxRank) LEVEL_SEQUENCE
      in case opt_mode options of
           Level \<Rightarrow> level_view options accessibleLevels accessibleNodes accessibleEdges
         | Overlay \<Rightarrow> overlay_view options accessibleLevels accessibleNodes accessibleEdges
         | Virtual \<Rightarrow> virtual_view rt allNodes accessibleNodes accessibleEdges)"

subsection \<open>The rank of the specification, and the loop invariants\<close>

text \<open>
  The rank of a classification level as the specification states it: UNCLASSIFIED is
  0, CONFIDENTIAL is 1, SECRET is 2, and every other level is 0. It is not taken from
  the code; the theorems compare it with what the code computes from its tables.
\<close>

definition spec_rank :: "string \<Rightarrow> nat" where
  "spec_rank level =
     (if level = ''SECRET'' then 2 else if level = ''CONFIDENTIAL'' then 1 else 0)"

text \<open>
  The loop invariants of the virtual view: what \<open>nodeChoice\<close> holds after the
  accessible nodes \<open>xs\<close> have been processed, and that every re-pointed edge ends in
  returned nodes.
\<close>

definition choice_inv :: "(string \<times> GraphNode) list \<Rightarrow> GraphNode list \<Rightarrow> bool" where
  "choice_inv m xs \<longleftrightarrow>
     distinct (map fst m) \<and>
     fst ` set m = n_logical_id ` set xs \<and>
     (\<forall>kv \<in> set m. fst kv = n_logical_id (snd kv) \<and> snd kv \<in> set xs \<and>
        (\<forall>a \<in> set xs. n_logical_id a = fst kv \<longrightarrow>
           spec_rank (n_classification_level a) \<le> spec_rank (n_classification_level (snd kv))))"

definition closed_edges :: "GraphNode list \<Rightarrow> (string \<times> GraphEdge) list \<Rightarrow> bool" where
  "closed_edges nodes m \<longleftrightarrow>
     (\<forall>kv \<in> set m. source_node_id (snd kv) \<in> n_id ` set nodes \<and>
                    target_node_id (snd kv) \<in> n_id ` set nodes)"

section \<open>Level export and import (dataStore.ts)\<close>




text \<open>\<^verbatim>\<open>x || d\<close> for an optional string \<open>x\<close>.\<close>

definition str_or :: "string option \<Rightarrow> string \<Rightarrow> string" where
  "str_or x d = (case x of None \<Rightarrow> d | Some s \<Rightarrow> if s \<noteq> [] then s else d)"






section \<open>Query language parser (queryEngine.ts)\<close>

text \<open>
  Text outside ASCII is written in its UTF-8 bytes. The comment beside a message gives
  its meaning; the keys of the keyword tables are listed with \<^verbatim>\<open>\u\<close> escapes.
\<close>

datatype intent = IntentCount | IntentList | IntentTimeline

datatype logic_operator = LogicAND | LogicOR

text \<open>A comparison value is a number or a string; the operator is the matched text.\<close>

datatype cmp_value = NumV rat | StrV string

record ComparisonFilter =
  cf_attribute :: string
  cf_operator :: string
  cf_value :: cmp_value
  cf_raw :: string
  cf_display :: string

record TimeRange =
  tr_start :: "int option"
  tr_end :: "int option"
  tr_raw :: string

record GeoFilter =
  geo_lat :: rat
  geo_lon :: rat
  radiusKm :: rat
  geo_raw :: string

text \<open>
  \<open>timeWindowHours\<close> and \<open>limit\<close> are optional numbers: \<open>None\<close> is undefined,
  \<open>Some None\<close> is NaN.
\<close>

record ParsedQuery =
  intent :: intent
  entityType :: "string option"
  entityLabel :: "string option"
  sectorFilters :: "string list"
  timeWindowHours :: "rat option option"
  timeWindowRaw :: "string option"
  timeRange :: "TimeRange option"
  statusFilters :: "string list"
  categoryFilters :: "string list"
  levelFilter :: "string option"
  logicOperator :: logic_operator
  geoFilter :: "GeoFilter option"
  limit :: "rat option option"
  comparisons :: "ComparisonFilter list"
  tokens :: "string list"
  tips :: "string list"
  recognized :: "(string \<times> string) list"
  warnings :: "string list"

text \<open>Truthiness of an optional string and of an optional number.\<close>

definition truthy_str :: "string option \<Rightarrow> bool" where
  "truthy_str x = (case x of None \<Rightarrow> False | Some s \<Rightarrow> s \<noteq> [])"

definition truthy_num :: "rat option option \<Rightarrow> bool" where
  "truthy_num x = (case x of Some (Some r) \<Rightarrow> r \<noteq> 0 | _ \<Rightarrow> False)"

record EntityKeywordEntry =
  ek_keywords :: "string list"
  ek_entityType :: string
  ek_label :: string
  ek_category :: "string option"
  ek_intent :: "intent option"
  ek_tips :: "string list option"


subsection \<open>Labels, tips, warnings and messages\<close>

definition label_uav :: string where \<comment> \<open>UAVs\<close>
  "label_uav = [CHR 0xD0, CHR 0x91, CHR 0xD0, CHR 0xB5, CHR 0xD1, CHR 0x81, CHR 0xD0, CHR 0xBF, CHR 0xD0, CHR 0xB8, CHR 0xD0, CHR 0xBB, CHR 0xD0, CHR 0xBE, CHR 0xD1, CHR 0x82, CHR 0xD0, CHR 0xBD, CHR 0xD0, CHR 0xB8, CHR 0xD0, CHR 0xBA, CHR 0xD0, CHR 0xB8]"

definition label_targets :: string where \<comment> \<open>air targets\<close>
  "label_targets = [CHR 0xD0, CHR 0x92, CHR 0xD0, CHR 0xBE, CHR 0xD0, CHR 0xB7, CHR 0xD0, CHR 0xB4, CHR 0xD1, CHR 0x83, CHR 0xD1, CHR 0x88, CHR 0xD0, CHR 0xBD, CHR 0xD1, CHR 0x8B, CHR 0xD0, CHR 0xB5] @ '' '' @ [CHR 0xD1, CHR 0x86, CHR 0xD0, CHR 0xB5, CHR 0xD0, CHR 0xBB, CHR 0xD0, CHR 0xB8]"

definition label_sensors :: string where \<comment> \<open>sensors\<close>
  "label_sensors = [CHR 0xD0, CHR 0xA1, CHR 0xD0, CHR 0xB5, CHR 0xD0, CHR 0xBD, CHR 0xD1, CHR 0x81, CHR 0xD0, CHR 0xBE, CHR 0xD1, CHR 0x80, CHR 0xD1, CHR 0x8B]"

definition label_events :: string where \<comment> \<open>events\<close>
  "label_events = [CHR 0xD0, CHR 0xA1, CHR 0xD0, CHR 0xBE, CHR 0xD0, CHR 0xB1, CHR 0xD1, CHR 0x8B, CHR 0xD1, CHR 0x82, CHR 0xD0, CHR 0xB8, CHR 0xD1, CHR 0x8F]"

definition label_sectors :: string where \<comment> \<open>sectors\<close>
  "label_sectors = [CHR 0xD0, CHR 0xA1, CHR 0xD0, CHR 0xB5, CHR 0xD0, CHR 0xBA, CHR 0xD1, CHR 0x82, CHR 0xD0, CHR 0xBE, CHR 0xD1, CHR 0x80, CHR 0xD0, CHR 0xB0]"

definition tip_sensor_status :: string where \<comment> \<open>a status filter can be added\<close>
  "tip_sensor_status = [CHR 0xD0, CHR 0x9C, CHR 0xD0, CHR 0xBE, CHR 0xD0, CHR 0xB6, CHR 0xD0, CHR 0xBD, CHR 0xD0, CHR 0xBE] @ '' '' @ [CHR 0xD0, CHR 0xB4, CHR 0xD0, CHR 0xBE, CHR 0xD0, CHR 0xB1, CHR 0xD0, CHR 0xB0, CHR 0xD0, CHR 0xB2, CHR 0xD0, CHR 0xB8, CHR 0xD1, CHR 0x82, CHR 0xD1, CHR 0x8C] @ '' '' @ [CHR 0xD1, CHR 0x84, CHR 0xD0, CHR 0xB8, CHR 0xD0, CHR 0xBB, CHR 0xD1, CHR 0x8C, CHR 0xD1, CHR 0x82, CHR 0xD1, CHR 0x80] @ '' '' @ [CHR 0xD1, CHR 0x81, CHR 0xD1, CHR 0x82, CHR 0xD0, CHR 0xB0, CHR 0xD1, CHR 0x82, CHR 0xD1, CHR 0x83, CHR 0xD1, CHR 0x81, CHR 0xD0, CHR 0xB0] @ '': '' @ [CHR 0xC2, CHR 0xAB, CHR 0xD1, CHR 0x81, CHR 0xD0, CHR 0xB5, CHR 0xD0, CHR 0xBD, CHR 0xD1, CHR 0x81, CHR 0xD0, CHR 0xBE, CHR 0xD1, CHR 0x80, CHR 0xD1, CHR 0x8B] @ '' offline'' @ [CHR 0xC2, CHR 0xBB] @ ''.''"

definition tip_event_window :: string where \<comment> \<open>use a time window\<close>
  "tip_event_window = [CHR 0xD0, CHR 0x98, CHR 0xD1, CHR 0x81, CHR 0xD0, CHR 0xBF, CHR 0xD0, CHR 0xBE, CHR 0xD0, CHR 0xBB, CHR 0xD1, CHR 0x8C, CHR 0xD0, CHR 0xB7, CHR 0xD1, CHR 0x83, CHR 0xD0, CHR 0xB9, CHR 0xD1, CHR 0x82, CHR 0xD0, CHR 0xB5] @ '' '' @ [CHR 0xD0, CHR 0xB2, CHR 0xD1, CHR 0x80, CHR 0xD0, CHR 0xB5, CHR 0xD0, CHR 0xBC, CHR 0xD0, CHR 0xB5, CHR 0xD0, CHR 0xBD, CHR 0xD0, CHR 0xBD, CHR 0xD0, CHR 0xBE, CHR 0xD0, CHR 0xB9] @ '' '' @ [CHR 0xD0, CHR 0xB4, CHR 0xD0, CHR 0xB8, CHR 0xD0, CHR 0xB0, CHR 0xD0, CHR 0xBF, CHR 0xD0, CHR 0xB0, CHR 0xD0, CHR 0xB7, CHR 0xD0, CHR 0xBE, CHR 0xD0, CHR 0xBD] @ '': '' @ [CHR 0xC2, CHR 0xAB, CHR 0xD0, CHR 0xBF, CHR 0xD0, CHR 0xBE, CHR 0xD1, CHR 0x81, CHR 0xD0, CHR 0xBB, CHR 0xD0, CHR 0xB5, CHR 0xD0, CHR 0xB4, CHR 0xD0, CHR 0xBD, CHR 0xD0, CHR 0xB8, CHR 0xD0, CHR 0xB5] @ '' 30 '' @ [CHR 0xD0, CHR 0xBC, CHR 0xD0, CHR 0xB8, CHR 0xD0, CHR 0xBD, CHR 0xD1, CHR 0x83, CHR 0xD1, CHR 0x82, CHR 0xC2, CHR 0xBB] @ ''.''"

definition tip_sector_refine :: string where \<comment> \<open>say what is wanted inside the sector\<close>
  "tip_sector_refine = [CHR 0xD0, CHR 0xA3, CHR 0xD1, CHR 0x82, CHR 0xD0, CHR 0xBE, CHR 0xD1, CHR 0x87, CHR 0xD0, CHR 0xBD, CHR 0xD0, CHR 0xB8, CHR 0xD1, CHR 0x82, CHR 0xD0, CHR 0xB5] @ '', '' @ [CHR 0xD1, CHR 0x87, CHR 0xD1, CHR 0x82, CHR 0xD0, CHR 0xBE] @ '' '' @ [CHR 0xD0, CHR 0xBD, CHR 0xD1, CHR 0x83, CHR 0xD0, CHR 0xB6, CHR 0xD0, CHR 0xBD, CHR 0xD0, CHR 0xBE] @ '': '' @ [CHR 0xD1, CHR 0x86, CHR 0xD0, CHR 0xB5, CHR 0xD0, CHR 0xBB, CHR 0xD0, CHR 0xB8] @ '', '' @ [CHR 0xD1, CHR 0x81, CHR 0xD0, CHR 0xB5, CHR 0xD0, CHR 0xBD, CHR 0xD1, CHR 0x81, CHR 0xD0, CHR 0xBE, CHR 0xD1, CHR 0x80, CHR 0xD1, CHR 0x8B] @ '' '' @ [CHR 0xD0, CHR 0xB8, CHR 0xD0, CHR 0xBB, CHR 0xD0, CHR 0xB8] @ '' '' @ [CHR 0xD1, CHR 0x81, CHR 0xD0, CHR 0xBE, CHR 0xD0, CHR 0xB1, CHR 0xD1, CHR 0x8B, CHR 0xD1, CHR 0x82, CHR 0xD0, CHR 0xB8, CHR 0xD1, CHR 0x8F] @ '' '' @ [CHR 0xD0, CHR 0xB2, CHR 0xD0, CHR 0xBD, CHR 0xD1, CHR 0x83, CHR 0xD1, CHR 0x82, CHR 0xD1, CHR 0x80, CHR 0xD0, CHR 0xB8] @ '' '' @ [CHR 0xD1, CHR 0x81, CHR 0xD0, CHR 0xB5, CHR 0xD0, CHR 0xBA, CHR 0xD1, CHR 0x82, CHR 0xD0, CHR 0xBE, CHR 0xD1, CHR 0x80, CHR 0xD0, CHR 0xB0] @ ''.''"

definition tip_add_sector :: string where \<comment> \<open>add a sector for precision\<close>
  "tip_add_sector = [CHR 0xD0, CHR 0x94, CHR 0xD0, CHR 0xBE, CHR 0xD0, CHR 0xB1, CHR 0xD0, CHR 0xB0, CHR 0xD0, CHR 0xB2, CHR 0xD1, CHR 0x8C, CHR 0xD1, CHR 0x82, CHR 0xD0, CHR 0xB5] @ '' '' @ [CHR 0xD1, CHR 0x81, CHR 0xD0, CHR 0xB5, CHR 0xD0, CHR 0xBA, CHR 0xD1, CHR 0x82, CHR 0xD0, CHR 0xBE, CHR 0xD1, CHR 0x80] @ '' '' @ [CHR 0xD0, CHR 0xB4, CHR 0xD0, CHR 0xBB, CHR 0xD1, CHR 0x8F] @ '' '' @ [CHR 0xD1, CHR 0x82, CHR 0xD0, CHR 0xBE, CHR 0xD1, CHR 0x87, CHR 0xD0, CHR 0xBD, CHR 0xD0, CHR 0xBE, CHR 0xD1, CHR 0x81, CHR 0xD1, CHR 0x82, CHR 0xD0, CHR 0xB8] @ '': '' @ [CHR 0xC2, CHR 0xAB, CHR 0xD0, CHR 0xB2] @ '' '' @ [CHR 0xD1, CHR 0x81, CHR 0xD0, CHR 0xB5, CHR 0xD0, CHR 0xBA, CHR 0xD1, CHR 0x82, CHR 0xD0, CHR 0xBE, CHR 0xD1, CHR 0x80, CHR 0xD0, CHR 0xB5] @ '' A'' @ [CHR 0xC2, CHR 0xBB] @ ''.''"

definition tip_more_statuses :: string where \<comment> \<open>several statuses can be given\<close>
  "tip_more_statuses = [CHR 0xD0, CHR 0x9C, CHR 0xD0, CHR 0xBE, CHR 0xD0, CHR 0xB6, CHR 0xD0, CHR 0xBD, CHR 0xD0, CHR 0xBE] @ '' '' @ [CHR 0xD1, CHR 0x83, CHR 0xD1, CHR 0x82, CHR 0xD0, CHR 0xBE, CHR 0xD1, CHR 0x87, CHR 0xD0, CHR 0xBD, CHR 0xD0, CHR 0xB8, CHR 0xD1, CHR 0x82, CHR 0xD1, CHR 0x8C] @ '' '' @ [CHR 0xD0, CHR 0xBD, CHR 0xD0, CHR 0xB5, CHR 0xD1, CHR 0x81, CHR 0xD0, CHR 0xBA, CHR 0xD0, CHR 0xBE, CHR 0xD0, CHR 0xBB, CHR 0xD1, CHR 0x8C, CHR 0xD0, CHR 0xBA, CHR 0xD0, CHR 0xBE] @ '' '' @ [CHR 0xD1, CHR 0x81, CHR 0xD1, CHR 0x82, CHR 0xD0, CHR 0xB0, CHR 0xD1, CHR 0x82, CHR 0xD1, CHR 0x83, CHR 0xD1, CHR 0x81, CHR 0xD0, CHR 0xBE, CHR 0xD0, CHR 0xB2] @ '': offline, online, degraded.''"

definition tip_comparisons :: string where \<comment> \<open>comparisons work for numeric fields\<close>
  "tip_comparisons = [CHR 0xD0, CHR 0xA1, CHR 0xD1, CHR 0x80, CHR 0xD0, CHR 0xB0, CHR 0xD0, CHR 0xB2, CHR 0xD0, CHR 0xBD, CHR 0xD0, CHR 0xB5, CHR 0xD0, CHR 0xBD, CHR 0xD0, CHR 0xB8, CHR 0xD1, CHR 0x8F] @ '' '' @ [CHR 0xD0, CHR 0xBF, CHR 0xD0, CHR 0xBE, CHR 0xD0, CHR 0xB4, CHR 0xD0, CHR 0xB4, CHR 0xD0, CHR 0xB5, CHR 0xD1, CHR 0x80, CHR 0xD0, CHR 0xB6, CHR 0xD0, CHR 0xB8, CHR 0xD0, CHR 0xB2, CHR 0xD0, CHR 0xB0, CHR 0xD1, CHR 0x8E, CHR 0xD1, CHR 0x82, CHR 0xD1, CHR 0x81, CHR 0xD1, CHR 0x8F] @ '' '' @ [CHR 0xD0, CHR 0xB4, CHR 0xD0, CHR 0xBB, CHR 0xD1, CHR 0x8F] @ '' '' @ [CHR 0xD1, CHR 0x87, CHR 0xD0, CHR 0xB8, CHR 0xD1, CHR 0x81, CHR 0xD0, CHR 0xBB, CHR 0xD0, CHR 0xBE, CHR 0xD0, CHR 0xB2, CHR 0xD1, CHR 0x8B, CHR 0xD1, CHR 0x85] @ '' '' @ [CHR 0xD0, CHR 0xBF, CHR 0xD0, CHR 0xBE, CHR 0xD0, CHR 0xBB, CHR 0xD0, CHR 0xB5, CHR 0xD0, CHR 0xB9] @ '': '' @ [CHR 0xD1, CHR 0x81, CHR 0xD0, CHR 0xBA, CHR 0xD0, CHR 0xBE, CHR 0xD1, CHR 0x80, CHR 0xD0, CHR 0xBE, CHR 0xD1, CHR 0x81, CHR 0xD1, CHR 0x82, CHR 0xD1, CHR 0x8C] @ '', '' @ [CHR 0xD0, CHR 0xBA, CHR 0xD1, CHR 0x83, CHR 0xD1, CHR 0x80, CHR 0xD1, CHR 0x81] @ ''.''"

definition tip_name_entity :: string where \<comment> \<open>name the object of interest\<close>
  "tip_name_entity = [CHR 0xD0, CHR 0xA3, CHR 0xD0, CHR 0xBA, CHR 0xD0, CHR 0xB0, CHR 0xD0, CHR 0xB6, CHR 0xD0, CHR 0xB8, CHR 0xD1, CHR 0x82, CHR 0xD0, CHR 0xB5] @ '' '' @ [CHR 0xD0, CHR 0xBE, CHR 0xD0, CHR 0xB1, CHR 0xD1, CHR 0x8A, CHR 0xD0, CHR 0xB5, CHR 0xD0, CHR 0xBA, CHR 0xD1, CHR 0x82] @ '' '' @ [CHR 0xD0, CHR 0xB8, CHR 0xD0, CHR 0xBD, CHR 0xD1, CHR 0x82, CHR 0xD0, CHR 0xB5, CHR 0xD1, CHR 0x80, CHR 0xD0, CHR 0xB5, CHR 0xD1, CHR 0x81, CHR 0xD0, CHR 0xB0] @ '' ('' @ [CHR 0xD0, CHR 0xBD, CHR 0xD0, CHR 0xB0, CHR 0xD0, CHR 0xBF, CHR 0xD1, CHR 0x80, CHR 0xD0, CHR 0xB8, CHR 0xD0, CHR 0xBC, CHR 0xD0, CHR 0xB5, CHR 0xD1, CHR 0x80] @ '', '' @ [CHR 0xC2, CHR 0xAB, CHR 0xD0, CHR 0xB1, CHR 0xD0, CHR 0xB5, CHR 0xD1, CHR 0x81, CHR 0xD0, CHR 0xBF, CHR 0xD0, CHR 0xB8, CHR 0xD0, CHR 0xBB, CHR 0xD0, CHR 0xBE, CHR 0xD1, CHR 0x82, CHR 0xD0, CHR 0xBD, CHR 0xD0, CHR 0xB8, CHR 0xD0, CHR 0xBA, CHR 0xD0, CHR 0xB8, CHR 0xC2, CHR 0xBB] @ '', '' @ [CHR 0xC2, CHR 0xAB, CHR 0xD1, CHR 0x81, CHR 0xD0, CHR 0xB5, CHR 0xD0, CHR 0xBD, CHR 0xD1, CHR 0x81, CHR 0xD0, CHR 0xBE, CHR 0xD1, CHR 0x80, CHR 0xD1, CHR 0x8B, CHR 0xC2, CHR 0xBB] @ '', '' @ [CHR 0xC2, CHR 0xAB, CHR 0xD1, CHR 0x81, CHR 0xD0, CHR 0xBE, CHR 0xD0, CHR 0xB1, CHR 0xD1, CHR 0x8B, CHR 0xD1, CHR 0x82, CHR 0xD0, CHR 0xB8, CHR 0xD1, CHR 0x8F, CHR 0xC2, CHR 0xBB] @ '').''"

definition tip_add_context :: string where \<comment> \<open>add context: sector, status, time interval\<close>
  "tip_add_context = [CHR 0xD0, CHR 0x94, CHR 0xD0, CHR 0xBE, CHR 0xD0, CHR 0xB1, CHR 0xD0, CHR 0xB0, CHR 0xD0, CHR 0xB2, CHR 0xD1, CHR 0x8C, CHR 0xD1, CHR 0x82, CHR 0xD0, CHR 0xB5] @ '' '' @ [CHR 0xD0, CHR 0xBA, CHR 0xD0, CHR 0xBE, CHR 0xD0, CHR 0xBD, CHR 0xD1, CHR 0x82, CHR 0xD0, CHR 0xB5, CHR 0xD0, CHR 0xBA, CHR 0xD1, CHR 0x81, CHR 0xD1, CHR 0x82] @ '': '' @ [CHR 0xD1, CHR 0x81, CHR 0xD0, CHR 0xB5, CHR 0xD0, CHR 0xBA, CHR 0xD1, CHR 0x82, CHR 0xD0, CHR 0xBE, CHR 0xD1, CHR 0x80] @ '', '' @ [CHR 0xD1, CHR 0x81, CHR 0xD1, CHR 0x82, CHR 0xD0, CHR 0xB0, CHR 0xD1, CHR 0x82, CHR 0xD1, CHR 0x83, CHR 0xD1, CHR 0x81] @ '', '' @ [CHR 0xD0, CHR 0xB2, CHR 0xD1, CHR 0x80, CHR 0xD0, CHR 0xB5, CHR 0xD0, CHR 0xBC, CHR 0xD0, CHR 0xB5, CHR 0xD0, CHR 0xBD, CHR 0xD0, CHR 0xBD, CHR 0xD0, CHR 0xBE, CHR 0xD0, CHR 0xB9] @ '' '' @ [CHR 0xD0, CHR 0xB8, CHR 0xD0, CHR 0xBD, CHR 0xD1, CHR 0x82, CHR 0xD0, CHR 0xB5, CHR 0xD1, CHR 0x80, CHR 0xD0, CHR 0xB2, CHR 0xD0, CHR 0xB0, CHR 0xD0, CHR 0xBB] @ ''.''"

definition warn_no_entity :: string where \<comment> \<open>no entity type: all objects the policy allows are returned\<close>
  "warn_no_entity = [CHR 0xD0, CHR 0xA2, CHR 0xD0, CHR 0xB8, CHR 0xD0, CHR 0xBF] @ '' '' @ [CHR 0xD1, CHR 0x81, CHR 0xD1, CHR 0x83, CHR 0xD1, CHR 0x89, CHR 0xD0, CHR 0xBD, CHR 0xD0, CHR 0xBE, CHR 0xD1, CHR 0x81, CHR 0xD1, CHR 0x82, CHR 0xD0, CHR 0xB8] @ '' '' @ [CHR 0xD0, CHR 0xBD, CHR 0xD0, CHR 0xB5] @ '' '' @ [CHR 0xD1, CHR 0x83, CHR 0xD0, CHR 0xBA, CHR 0xD0, CHR 0xB0, CHR 0xD0, CHR 0xB7, CHR 0xD0, CHR 0xB0, CHR 0xD0, CHR 0xBD] @ '' '' @ [CHR 0xE2, CHR 0x80, CHR 0x94] @ '' '' @ [CHR 0xD0, CHR 0xB1, CHR 0xD1, CHR 0x83, CHR 0xD0, CHR 0xB4, CHR 0xD1, CHR 0x83, CHR 0xD1, CHR 0x82] @ '' '' @ [CHR 0xD0, CHR 0xB2, CHR 0xD0, CHR 0xBE, CHR 0xD0, CHR 0xB7, CHR 0xD0, CHR 0xB2, CHR 0xD1, CHR 0x80, CHR 0xD0, CHR 0xB0, CHR 0xD1, CHR 0x89, CHR 0xD0, CHR 0xB5, CHR 0xD0, CHR 0xBD, CHR 0xD1, CHR 0x8B] @ '' '' @ [CHR 0xD0, CHR 0xB2, CHR 0xD1, CHR 0x81, CHR 0xD0, CHR 0xB5] @ '' '' @ [CHR 0xD0, CHR 0xBE, CHR 0xD0, CHR 0xB1, CHR 0xD1, CHR 0x8A, CHR 0xD0, CHR 0xB5, CHR 0xD0, CHR 0xBA, CHR 0xD1, CHR 0x82, CHR 0xD1, CHR 0x8B] @ '', '' @ [CHR 0xD0, CHR 0xB4, CHR 0xD0, CHR 0xBE, CHR 0xD1, CHR 0x81, CHR 0xD1, CHR 0x82, CHR 0xD1, CHR 0x83, CHR 0xD0, CHR 0xBF, CHR 0xD0, CHR 0xBD, CHR 0xD1, CHR 0x8B, CHR 0xD0, CHR 0xB5] @ '' '' @ [CHR 0xD0, CHR 0xBF, CHR 0xD0, CHR 0xBE] @ '' '' @ [CHR 0xD0, CHR 0xBF, CHR 0xD0, CHR 0xBE, CHR 0xD0, CHR 0xBB, CHR 0xD0, CHR 0xB8, CHR 0xD1, CHR 0x82, CHR 0xD0, CHR 0xB8, CHR 0xD0, CHR 0xBA, CHR 0xD0, CHR 0xB5] @ ''.''"

definition warn_single_or :: string where \<comment> \<open>the operator "or" was found but there is one condition\<close>
  "warn_single_or = [CHR 0xD0, CHR 0x9E, CHR 0xD0, CHR 0xBF, CHR 0xD0, CHR 0xB5, CHR 0xD1, CHR 0x80, CHR 0xD0, CHR 0xB0, CHR 0xD1, CHR 0x82, CHR 0xD0, CHR 0xBE, CHR 0xD1, CHR 0x80] @ '' '' @ [CHR 0xC2, CHR 0xAB, CHR 0xD0, CHR 0xB8, CHR 0xD0, CHR 0xBB, CHR 0xD0, CHR 0xB8, CHR 0xC2, CHR 0xBB] @ '' '' @ [CHR 0xD0, CHR 0xBE, CHR 0xD0, CHR 0xB1, CHR 0xD0, CHR 0xBD, CHR 0xD0, CHR 0xB0, CHR 0xD1, CHR 0x80, CHR 0xD1, CHR 0x83, CHR 0xD0, CHR 0xB6, CHR 0xD0, CHR 0xB5, CHR 0xD0, CHR 0xBD] @ '', '' @ [CHR 0xD0, CHR 0xBD, CHR 0xD0, CHR 0xBE] @ '' '' @ [CHR 0xD1, CHR 0x83, CHR 0xD1, CHR 0x81, CHR 0xD0, CHR 0xBB, CHR 0xD0, CHR 0xBE, CHR 0xD0, CHR 0xB2, CHR 0xD0, CHR 0xB8, CHR 0xD0, CHR 0xB5] @ '' '' @ [CHR 0xD0, CHR 0xBE, CHR 0xD0, CHR 0xB4, CHR 0xD0, CHR 0xBD, CHR 0xD0, CHR 0xBE] @ '' '' @ [CHR 0xE2, CHR 0x80, CHR 0x94] @ '' '' @ [CHR 0xD1, CHR 0x80, CHR 0xD0, CHR 0xB5, CHR 0xD0, CHR 0xB7, CHR 0xD1, CHR 0x83, CHR 0xD0, CHR 0xBB, CHR 0xD1, CHR 0x8C, CHR 0xD1, CHR 0x82, CHR 0xD0, CHR 0xB0, CHR 0xD1, CHR 0x82] @ '' '' @ [CHR 0xD1, CHR 0x81, CHR 0xD0, CHR 0xBE, CHR 0xD0, CHR 0xB2, CHR 0xD0, CHR 0xBF, CHR 0xD0, CHR 0xB0, CHR 0xD0, CHR 0xB4, CHR 0xD0, CHR 0xB0, CHR 0xD0, CHR 0xB5, CHR 0xD1, CHR 0x82] @ '' '' @ [CHR 0xD1, CHR 0x81] @ '' '' @ [CHR 0xD0, CHR 0xBE, CHR 0xD0, CHR 0xB1, CHR 0xD1, CHR 0x8B, CHR 0xD1, CHR 0x87, CHR 0xD0, CHR 0xBD, CHR 0xD1, CHR 0x8B, CHR 0xD0, CHR 0xBC] @ '' '' @ [CHR 0xD1, CHR 0x84, CHR 0xD0, CHR 0xB8, CHR 0xD0, CHR 0xBB, CHR 0xD1, CHR 0x8C, CHR 0xD1, CHR 0x82, CHR 0xD1, CHR 0x80, CHR 0xD0, CHR 0xBE, CHR 0xD0, CHR 0xBC] @ ''.''"

definition warn_range_and_window :: string where \<comment> \<open>both a fixed range and a sliding window: the intersection applies\<close>
  "warn_range_and_window = [CHR 0xD0, CHR 0xA3, CHR 0xD0, CHR 0xBA, CHR 0xD0, CHR 0xB0, CHR 0xD0, CHR 0xB7, CHR 0xD0, CHR 0xB0, CHR 0xD0, CHR 0xBD, CHR 0xD1, CHR 0x8B] @ '' '' @ [CHR 0xD0, CHR 0xB8] @ '' '' @ [CHR 0xD1, CHR 0x84, CHR 0xD0, CHR 0xB8, CHR 0xD0, CHR 0xBA, CHR 0xD1, CHR 0x81, CHR 0xD0, CHR 0xB8, CHR 0xD1, CHR 0x80, CHR 0xD0, CHR 0xBE, CHR 0xD0, CHR 0xB2, CHR 0xD0, CHR 0xB0, CHR 0xD0, CHR 0xBD, CHR 0xD0, CHR 0xBD, CHR 0xD1, CHR 0x8B, CHR 0xD0, CHR 0xB9] @ '' '' @ [CHR 0xD0, CHR 0xB4, CHR 0xD0, CHR 0xB8, CHR 0xD0, CHR 0xB0, CHR 0xD0, CHR 0xBF, CHR 0xD0, CHR 0xB0, CHR 0xD0, CHR 0xB7, CHR 0xD0, CHR 0xBE, CHR 0xD0, CHR 0xBD] @ '' '' @ [CHR 0xD0, CHR 0xB2, CHR 0xD1, CHR 0x80, CHR 0xD0, CHR 0xB5, CHR 0xD0, CHR 0xBC, CHR 0xD0, CHR 0xB5, CHR 0xD0, CHR 0xBD, CHR 0xD0, CHR 0xB8] @ '', '' @ [CHR 0xD0, CHR 0xB8] @ '' '' @ [CHR 0xD1, CHR 0x81, CHR 0xD0, CHR 0xBA, CHR 0xD0, CHR 0xBE, CHR 0xD0, CHR 0xBB, CHR 0xD1, CHR 0x8C, CHR 0xD0, CHR 0xB7, CHR 0xD1, CHR 0x8F, CHR 0xD1, CHR 0x89, CHR 0xD0, CHR 0xB5, CHR 0xD0, CHR 0xB5] @ '' '' @ [CHR 0xD0, CHR 0xBE, CHR 0xD0, CHR 0xBA, CHR 0xD0, CHR 0xBD, CHR 0xD0, CHR 0xBE] @ ''. '' @ [CHR 0xD0, CHR 0x9F, CHR 0xD1, CHR 0x80, CHR 0xD0, CHR 0xB8, CHR 0xD0, CHR 0xBC, CHR 0xD0, CHR 0xB5, CHR 0xD0, CHR 0xBD, CHR 0xD1, CHR 0x8F, CHR 0xD0, CHR 0xB5, CHR 0xD1, CHR 0x82, CHR 0xD1, CHR 0x81, CHR 0xD1, CHR 0x8F] @ '' '' @ [CHR 0xD0, CHR 0xBF, CHR 0xD0, CHR 0xB5, CHR 0xD1, CHR 0x80, CHR 0xD0, CHR 0xB5, CHR 0xD1, CHR 0x81, CHR 0xD0, CHR 0xB5, CHR 0xD1, CHR 0x87, CHR 0xD0, CHR 0xB5, CHR 0xD0, CHR 0xBD, CHR 0xD0, CHR 0xB8, CHR 0xD0, CHR 0xB5] @ '' '' @ [CHR 0xD1, CHR 0x83, CHR 0xD1, CHR 0x81, CHR 0xD0, CHR 0xBB, CHR 0xD0, CHR 0xBE, CHR 0xD0, CHR 0xB2, CHR 0xD0, CHR 0xB8, CHR 0xD0, CHR 0xB9] @ ''.''"

definition msg_budget_exhausted :: string where \<comment> \<open>query budget exhausted, wait for the reset\<close>
  "msg_budget_exhausted = [CHR 0xD0, CHR 0x98, CHR 0xD1, CHR 0x81, CHR 0xD1, CHR 0x87, CHR 0xD0, CHR 0xB5, CHR 0xD1, CHR 0x80, CHR 0xD0, CHR 0xBF, CHR 0xD0, CHR 0xB0, CHR 0xD0, CHR 0xBD] @ '' '' @ [CHR 0xD0, CHR 0xB1, CHR 0xD1, CHR 0x8E, CHR 0xD0, CHR 0xB4, CHR 0xD0, CHR 0xB6, CHR 0xD0, CHR 0xB5, CHR 0xD1, CHR 0x82] @ '' '' @ [CHR 0xD0, CHR 0xB7, CHR 0xD0, CHR 0xB0, CHR 0xD0, CHR 0xBF, CHR 0xD1, CHR 0x80, CHR 0xD0, CHR 0xBE, CHR 0xD1, CHR 0x81, CHR 0xD0, CHR 0xBE, CHR 0xD0, CHR 0xB2] @ ''. '' @ [CHR 0xD0, CHR 0x9F, CHR 0xD0, CHR 0xBE, CHR 0xD0, CHR 0xB4, CHR 0xD0, CHR 0xBE, CHR 0xD0, CHR 0xB6, CHR 0xD0, CHR 0xB4, CHR 0xD0, CHR 0xB8, CHR 0xD1, CHR 0x82, CHR 0xD0, CHR 0xB5] @ '' '' @ [CHR 0xD0, CHR 0xB2, CHR 0xD0, CHR 0xBE, CHR 0xD1, CHR 0x81, CHR 0xD1, CHR 0x81, CHR 0xD1, CHR 0x82, CHR 0xD0, CHR 0xB0, CHR 0xD0, CHR 0xBD, CHR 0xD0, CHR 0xBE, CHR 0xD0, CHR 0xB2, CHR 0xD0, CHR 0xBB, CHR 0xD0, CHR 0xB5, CHR 0xD0, CHR 0xBD, CHR 0xD0, CHR 0xB8, CHR 0xD1, CHR 0x8F] @ ''.''"

definition msg_budget_denial :: string where \<comment> \<open>budget exhausted\<close>
  "msg_budget_denial = [CHR 0xD0, CHR 0x91, CHR 0xD1, CHR 0x8E, CHR 0xD0, CHR 0xB4, CHR 0xD0, CHR 0xB6, CHR 0xD0, CHR 0xB5, CHR 0xD1, CHR 0x82] @ '' '' @ [CHR 0xD0, CHR 0xB8, CHR 0xD1, CHR 0x81, CHR 0xD1, CHR 0x87, CHR 0xD0, CHR 0xB5, CHR 0xD1, CHR 0x80, CHR 0xD0, CHR 0xBF, CHR 0xD0, CHR 0xB0, CHR 0xD0, CHR 0xBD]"

definition msg_unrecognized :: string where \<comment> \<open>could not recognise the query\<close>
  "msg_unrecognized = [CHR 0xD0, CHR 0x9D, CHR 0xD0, CHR 0xB5] @ '' '' @ [CHR 0xD1, CHR 0x83, CHR 0xD0, CHR 0xB4, CHR 0xD0, CHR 0xB0, CHR 0xD0, CHR 0xBB, CHR 0xD0, CHR 0xBE, CHR 0xD1, CHR 0x81, CHR 0xD1, CHR 0x8C] @ '' '' @ [CHR 0xD1, CHR 0x80, CHR 0xD0, CHR 0xB0, CHR 0xD1, CHR 0x81, CHR 0xD0, CHR 0xBF, CHR 0xD0, CHR 0xBE, CHR 0xD0, CHR 0xB7, CHR 0xD0, CHR 0xBD, CHR 0xD0, CHR 0xB0, CHR 0xD1, CHR 0x82, CHR 0xD1, CHR 0x8C] @ '' '' @ [CHR 0xD0, CHR 0xB7, CHR 0xD0, CHR 0xB0, CHR 0xD0, CHR 0xBF, CHR 0xD1, CHR 0x80, CHR 0xD0, CHR 0xBE, CHR 0xD1, CHR 0x81]"

definition msg_k_anonymity :: string where \<comment> \<open>the sample is too small to disclose details (k-anonymity protection)\<close>
  "msg_k_anonymity = [CHR 0xD0, CHR 0x92, CHR 0xD1, CHR 0x8B, CHR 0xD0, CHR 0xB1, CHR 0xD0, CHR 0xBE, CHR 0xD1, CHR 0x80, CHR 0xD0, CHR 0xBA, CHR 0xD0, CHR 0xB0] @ '' '' @ [CHR 0xD1, CHR 0x81, CHR 0xD0, CHR 0xBB, CHR 0xD0, CHR 0xB8, CHR 0xD1, CHR 0x88, CHR 0xD0, CHR 0xBA, CHR 0xD0, CHR 0xBE, CHR 0xD0, CHR 0xBC] @ '' '' @ [CHR 0xD0, CHR 0xBC, CHR 0xD0, CHR 0xB0, CHR 0xD0, CHR 0xBB, CHR 0xD0, CHR 0xB0] @ '' '' @ [CHR 0xD0, CHR 0xB4, CHR 0xD0, CHR 0xBB, CHR 0xD1, CHR 0x8F] @ '' '' @ [CHR 0xD1, CHR 0x80, CHR 0xD0, CHR 0xB0, CHR 0xD1, CHR 0x81, CHR 0xD0, CHR 0xBA, CHR 0xD1, CHR 0x80, CHR 0xD1, CHR 0x8B, CHR 0xD1, CHR 0x82, CHR 0xD0, CHR 0xB8, CHR 0xD1, CHR 0x8F] @ '' '' @ [CHR 0xD0, CHR 0xB4, CHR 0xD0, CHR 0xB5, CHR 0xD1, CHR 0x82, CHR 0xD0, CHR 0xB0, CHR 0xD0, CHR 0xBB, CHR 0xD0, CHR 0xB5, CHR 0xD0, CHR 0xB9] @ '' ('' @ [CHR 0xD0, CHR 0xB7, CHR 0xD0, CHR 0xB0, CHR 0xD1, CHR 0x89, CHR 0xD0, CHR 0xB8, CHR 0xD1, CHR 0x82, CHR 0xD0, CHR 0xB0] @ '' k-'' @ [CHR 0xD0, CHR 0xB0, CHR 0xD0, CHR 0xBD, CHR 0xD0, CHR 0xBE, CHR 0xD0, CHR 0xBD, CHR 0xD0, CHR 0xB8, CHR 0xD0, CHR 0xBC, CHR 0xD0, CHR 0xBD, CHR 0xD0, CHR 0xBE, CHR 0xD1, CHR 0x81, CHR 0xD1, CHR 0x82, CHR 0xD1, CHR 0x8C, CHR 0xD1, CHR 0x8E] @ '')''"

definition raw_right_now :: string where \<comment> \<open>right now\<close>
  "raw_right_now = [CHR 0xD0, CHR 0xBF, CHR 0xD1, CHR 0x80, CHR 0xD1, CHR 0x8F, CHR 0xD0, CHR 0xBC, CHR 0xD0, CHR 0xBE] @ '' '' @ [CHR 0xD1, CHR 0x81, CHR 0xD0, CHR 0xB5, CHR 0xD0, CHR 0xB9, CHR 0xD1, CHR 0x87, CHR 0xD0, CHR 0xB0, CHR 0xD1, CHR 0x81]"

definition lbl_sectors :: string where \<comment> \<open>Sectors: \<close>
  "lbl_sectors = [CHR 0xD0, CHR 0xA1, CHR 0xD0, CHR 0xB5, CHR 0xD0, CHR 0xBA, CHR 0xD1, CHR 0x82, CHR 0xD0, CHR 0xBE, CHR 0xD1, CHR 0x80, CHR 0xD1, CHR 0x8B] @ '': ''"

definition lbl_level :: string where \<comment> \<open>Clearance level: \<close>
  "lbl_level = [CHR 0xD0, CHR 0xA3, CHR 0xD1, CHR 0x80, CHR 0xD0, CHR 0xBE, CHR 0xD0, CHR 0xB2, CHR 0xD0, CHR 0xB5, CHR 0xD0, CHR 0xBD, CHR 0xD1, CHR 0x8C] @ '' '' @ [CHR 0xD0, CHR 0xB4, CHR 0xD0, CHR 0xBE, CHR 0xD0, CHR 0xBF, CHR 0xD1, CHR 0x83, CHR 0xD1, CHR 0x81, CHR 0xD0, CHR 0xBA, CHR 0xD0, CHR 0xB0] @ '': ''"

definition lbl_categories :: string where \<comment> \<open>Categories: \<close>
  "lbl_categories = [CHR 0xD0, CHR 0x9A, CHR 0xD0, CHR 0xB0, CHR 0xD1, CHR 0x82, CHR 0xD0, CHR 0xB5, CHR 0xD0, CHR 0xB3, CHR 0xD0, CHR 0xBE, CHR 0xD1, CHR 0x80, CHR 0xD0, CHR 0xB8, CHR 0xD0, CHR 0xB8] @ '': ''"

definition lbl_statuses :: string where \<comment> \<open>Statuses: \<close>
  "lbl_statuses = [CHR 0xD0, CHR 0xA1, CHR 0xD1, CHR 0x82, CHR 0xD0, CHR 0xB0, CHR 0xD1, CHR 0x82, CHR 0xD1, CHR 0x83, CHR 0xD1, CHR 0x81, CHR 0xD1, CHR 0x8B] @ '': ''"

definition lbl_coordinates :: string where \<comment> \<open>Coordinates \<close>
  "lbl_coordinates = [CHR 0xD0, CHR 0x9A, CHR 0xD0, CHR 0xBE, CHR 0xD0, CHR 0xBE, CHR 0xD1, CHR 0x80, CHR 0xD0, CHR 0xB4, CHR 0xD0, CHR 0xB8, CHR 0xD0, CHR 0xBD, CHR 0xD0, CHR 0xB0, CHR 0xD1, CHR 0x82, CHR 0xD1, CHR 0x8B] @ '' ''"

definition lbl_plus_minus :: string where \<comment> \<open> +- \<close>
  "lbl_plus_minus = '' '' @ [CHR 0xC2, CHR 0xB1] @ '' ''"

definition lbl_km :: string where \<comment> \<open> km\<close>
  "lbl_km = '' '' @ [CHR 0xD0, CHR 0xBA, CHR 0xD0, CHR 0xBC]"

definition lbl_dash :: string where \<comment> \<open> - \<close>
  "lbl_dash = '' '' @ [CHR 0xE2, CHR 0x80, CHR 0x94] @ '' ''"

subsection \<open>Keyword tables\<close>

text \<open>
  \<open>ENTITY_KEYWORDS\<close>. The keywords of the five groups are, in the source:
  \u0431\u0435\u0441\u043f\u0438\u043b\u043e\u0442\u043d, \u0434\u0440\u043e\u043d, uav, \u0431\u043f\u043b\u0430; \u0446\u0435\u043b\u044c, target, object; \u0441\u0435\u043d\u0441\u043e\u0440, sensor, \u0440\u0430\u0434\u0430\u0440, \u0440\u0430\u0434\u0438\u043e\u043b\u043e\u043a; \u0441\u043e\u0431\u044b\u0442\u0438, event, \u0438\u043d\u0446\u0438\u0434\u0435\u043d\u0442, \u043e\u043f\u0435\u0440\u0430\u0446\u0438\u044f; \u0441\u0435\u043a\u0442\u043e\u0440, sector.
\<close>

definition ENTITY_KEYWORDS :: "EntityKeywordEntry list" where
  "ENTITY_KEYWORDS =
     [\<lparr> ek_keywords = [[CHR 0xD0, CHR 0xB1, CHR 0xD0, CHR 0xB5, CHR 0xD1, CHR 0x81, CHR 0xD0, CHR 0xBF, CHR 0xD0, CHR 0xB8, CHR 0xD0, CHR 0xBB, CHR 0xD0, CHR 0xBE, CHR 0xD1, CHR 0x82, CHR 0xD0, CHR 0xBD], [CHR 0xD0, CHR 0xB4, CHR 0xD1, CHR 0x80, CHR 0xD0, CHR 0xBE, CHR 0xD0, CHR 0xBD], ''uav'', [CHR 0xD0, CHR 0xB1, CHR 0xD0, CHR 0xBF, CHR 0xD0, CHR 0xBB, CHR 0xD0, CHR 0xB0]],
        ek_entityType = ''Target'', ek_label = label_uav,
        ek_category = Some ''uav'', ek_intent = None, ek_tips = None \<rparr>,
      \<lparr> ek_keywords = [[CHR 0xD1, CHR 0x86, CHR 0xD0, CHR 0xB5, CHR 0xD0, CHR 0xBB, CHR 0xD1, CHR 0x8C], ''target'', ''object''],
        ek_entityType = ''Target'', ek_label = label_targets,
        ek_category = None, ek_intent = None, ek_tips = None \<rparr>,
      \<lparr> ek_keywords = [[CHR 0xD1, CHR 0x81, CHR 0xD0, CHR 0xB5, CHR 0xD0, CHR 0xBD, CHR 0xD1, CHR 0x81, CHR 0xD0, CHR 0xBE, CHR 0xD1, CHR 0x80], ''sensor'', [CHR 0xD1, CHR 0x80, CHR 0xD0, CHR 0xB0, CHR 0xD0, CHR 0xB4, CHR 0xD0, CHR 0xB0, CHR 0xD1, CHR 0x80], [CHR 0xD1, CHR 0x80, CHR 0xD0, CHR 0xB0, CHR 0xD0, CHR 0xB4, CHR 0xD0, CHR 0xB8, CHR 0xD0, CHR 0xBE, CHR 0xD0, CHR 0xBB, CHR 0xD0, CHR 0xBE, CHR 0xD0, CHR 0xBA]],
        ek_entityType = ''Sensor'', ek_label = label_sensors,
        ek_category = None, ek_intent = None, ek_tips = Some [tip_sensor_status] \<rparr>,
      \<lparr> ek_keywords = [[CHR 0xD1, CHR 0x81, CHR 0xD0, CHR 0xBE, CHR 0xD0, CHR 0xB1, CHR 0xD1, CHR 0x8B, CHR 0xD1, CHR 0x82, CHR 0xD0, CHR 0xB8], ''event'', [CHR 0xD0, CHR 0xB8, CHR 0xD0, CHR 0xBD, CHR 0xD1, CHR 0x86, CHR 0xD0, CHR 0xB8, CHR 0xD0, CHR 0xB4, CHR 0xD0, CHR 0xB5, CHR 0xD0, CHR 0xBD, CHR 0xD1, CHR 0x82], [CHR 0xD0, CHR 0xBE, CHR 0xD0, CHR 0xBF, CHR 0xD0, CHR 0xB5, CHR 0xD1, CHR 0x80, CHR 0xD0, CHR 0xB0, CHR 0xD1, CHR 0x86, CHR 0xD0, CHR 0xB8, CHR 0xD1, CHR 0x8F]],
        ek_entityType = ''Event'', ek_label = label_events,
        ek_category = None, ek_intent = Some IntentTimeline, ek_tips = Some [tip_event_window] \<rparr>,
      \<lparr> ek_keywords = [[CHR 0xD1, CHR 0x81, CHR 0xD0, CHR 0xB5, CHR 0xD0, CHR 0xBA, CHR 0xD1, CHR 0x82, CHR 0xD0, CHR 0xBE, CHR 0xD1, CHR 0x80], ''sector''],
        ek_entityType = ''Sector'', ek_label = label_sectors,
        ek_category = None, ek_intent = None, ek_tips = Some [tip_sector_refine] \<rparr>]"

text \<open>\<open>STATUS_KEYWORDS\<close>, keys in the order of the source: offline, \u043d\u0435\u0434\u043e\u0441\u0442\u0443\u043f\u043d, \u043d\u0435\u0440\u0430\u0431\u043e\u0442\u0430\u044e\u0449, \u043e\u0431\u0435\u0441\u0442\u043e\u0447\u0435\u043d, online, \u0440\u0430\u0431\u043e\u0442\u043e\u0441\u043f\u043e\u0441\u043e\u0431\u043d, \u0432\u043a\u043b, \u0430\u043a\u0442\u0438\u0432\u043d.\<close>

definition STATUS_KEYWORDS :: "(string \<times> string) list" where
  "STATUS_KEYWORDS =
     [(''offline'', ''offline''),
      ([CHR 0xD0, CHR 0xBD, CHR 0xD0, CHR 0xB5, CHR 0xD0, CHR 0xB4, CHR 0xD0, CHR 0xBE, CHR 0xD1, CHR 0x81, CHR 0xD1, CHR 0x82, CHR 0xD1, CHR 0x83, CHR 0xD0, CHR 0xBF, CHR 0xD0, CHR 0xBD], ''offline''),
      ([CHR 0xD0, CHR 0xBD, CHR 0xD0, CHR 0xB5, CHR 0xD1, CHR 0x80, CHR 0xD0, CHR 0xB0, CHR 0xD0, CHR 0xB1, CHR 0xD0, CHR 0xBE, CHR 0xD1, CHR 0x82, CHR 0xD0, CHR 0xB0, CHR 0xD1, CHR 0x8E, CHR 0xD1, CHR 0x89], ''offline''),
      ([CHR 0xD0, CHR 0xBE, CHR 0xD0, CHR 0xB1, CHR 0xD0, CHR 0xB5, CHR 0xD1, CHR 0x81, CHR 0xD1, CHR 0x82, CHR 0xD0, CHR 0xBE, CHR 0xD1, CHR 0x87, CHR 0xD0, CHR 0xB5, CHR 0xD0, CHR 0xBD], ''offline''),
      (''online'', ''online''),
      ([CHR 0xD1, CHR 0x80, CHR 0xD0, CHR 0xB0, CHR 0xD0, CHR 0xB1, CHR 0xD0, CHR 0xBE, CHR 0xD1, CHR 0x82, CHR 0xD0, CHR 0xBE, CHR 0xD1, CHR 0x81, CHR 0xD0, CHR 0xBF, CHR 0xD0, CHR 0xBE, CHR 0xD1, CHR 0x81, CHR 0xD0, CHR 0xBE, CHR 0xD0, CHR 0xB1, CHR 0xD0, CHR 0xBD], ''online''),
      ([CHR 0xD0, CHR 0xB2, CHR 0xD0, CHR 0xBA, CHR 0xD0, CHR 0xBB], ''online''),
      ([CHR 0xD0, CHR 0xB0, CHR 0xD0, CHR 0xBA, CHR 0xD1, CHR 0x82, CHR 0xD0, CHR 0xB8, CHR 0xD0, CHR 0xB2, CHR 0xD0, CHR 0xBD], ''online'')]"

text \<open>\<open>CATEGORY_KEYWORDS\<close>, keys in the order of the source: uav, \u0431\u043f\u043b\u0430, helikopter, \u0432\u0435\u0440\u0442\u043e\u043b\u0435\u0442, helicopter, unknown, group.\<close>

definition CATEGORY_KEYWORDS :: "(string \<times> string) list" where
  "CATEGORY_KEYWORDS =
     [(''uav'', ''uav''),
      ([CHR 0xD0, CHR 0xB1, CHR 0xD0, CHR 0xBF, CHR 0xD0, CHR 0xBB, CHR 0xD0, CHR 0xB0], ''uav''),
      (''helikopter'', ''helicopter''),
      ([CHR 0xD0, CHR 0xB2, CHR 0xD0, CHR 0xB5, CHR 0xD1, CHR 0x80, CHR 0xD1, CHR 0x82, CHR 0xD0, CHR 0xBE, CHR 0xD0, CHR 0xBB, CHR 0xD0, CHR 0xB5, CHR 0xD1, CHR 0x82], ''helicopter''),
      (''helicopter'', ''helicopter''),
      (''unknown'', ''unknown''),
      (''group'', ''airgroup'')]"

text \<open>\<open>LEVEL_KEYWORDS\<close>, keys in the order of the source: \u0441\u0435\u043a\u0440\u0435\u0442, secret, \u0443\u0440\u043e\u0432\u0435\u043d\u044c h, \u0443\u0440\u043e\u0432\u0435\u043d\u044c m, confid, \u0441\u0435\u043a\u0440\u0435\u0442\u043d, dsp, confidential, unclassified, \u0443\u0440\u043e\u0432\u0435\u043d\u044c l, \u043e\u0431\u0449\u0435\u0434\u043e\u0441\u0442\u0443\u043f\u043d.\<close>

definition LEVEL_KEYWORDS :: "(string \<times> string) list" where
  "LEVEL_KEYWORDS =
     [([CHR 0xD1, CHR 0x81, CHR 0xD0, CHR 0xB5, CHR 0xD0, CHR 0xBA, CHR 0xD1, CHR 0x80, CHR 0xD0, CHR 0xB5, CHR 0xD1, CHR 0x82], ''SECRET''),
      (''secret'', ''SECRET''),
      ([CHR 0xD1, CHR 0x83, CHR 0xD1, CHR 0x80, CHR 0xD0, CHR 0xBE, CHR 0xD0, CHR 0xB2, CHR 0xD0, CHR 0xB5, CHR 0xD0, CHR 0xBD, CHR 0xD1, CHR 0x8C] @ '' h'', ''SECRET''),
      ([CHR 0xD1, CHR 0x83, CHR 0xD1, CHR 0x80, CHR 0xD0, CHR 0xBE, CHR 0xD0, CHR 0xB2, CHR 0xD0, CHR 0xB5, CHR 0xD0, CHR 0xBD, CHR 0xD1, CHR 0x8C] @ '' m'', ''CONFIDENTIAL''),
      (''confid'', ''CONFIDENTIAL''),
      ([CHR 0xD1, CHR 0x81, CHR 0xD0, CHR 0xB5, CHR 0xD0, CHR 0xBA, CHR 0xD1, CHR 0x80, CHR 0xD0, CHR 0xB5, CHR 0xD1, CHR 0x82, CHR 0xD0, CHR 0xBD], ''SECRET''),
      (''dsp'', ''CONFIDENTIAL''),
      (''confidential'', ''CONFIDENTIAL''),
      (''unclassified'', ''UNCLASSIFIED''),
      ([CHR 0xD1, CHR 0x83, CHR 0xD1, CHR 0x80, CHR 0xD0, CHR 0xBE, CHR 0xD0, CHR 0xB2, CHR 0xD0, CHR 0xB5, CHR 0xD0, CHR 0xBD, CHR 0xD1, CHR 0x8C] @ '' l'', ''UNCLASSIFIED''),
      ([CHR 0xD0, CHR 0xBE, CHR 0xD0, CHR 0xB1, CHR 0xD1, CHR 0x89, CHR 0xD0, CHR 0xB5, CHR 0xD0, CHR 0xB4, CHR 0xD0, CHR 0xBE, CHR 0xD1, CHR 0x81, CHR 0xD1, CHR 0x82, CHR 0xD1, CHR 0x83, CHR 0xD0, CHR 0xBF, CHR 0xD0, CHR 0xBD], ''UNCLASSIFIED'')]"

text \<open>\<open>ATTRIBUTE_ALIASES\<close>, keys in the order of the source: \u0441\u043a\u043e\u0440\u043e\u0441\u0442, speed, heading, \u043a\u0443\u0440\u0441, \u0432\u044b\u0441\u043e\u0442, altitude, \u0443\u0433\u0440\u043e\u0437, threat, status, \u0441\u0442\u0430\u0442\u0443\u0441, \u043e\u043f\u0435\u0440\u0430\u0446\u0438\u043e\u043d, distance.\<close>

definition ATTRIBUTE_ALIASES :: "(string \<times> string) list" where
  "ATTRIBUTE_ALIASES =
     [([CHR 0xD1, CHR 0x81, CHR 0xD0, CHR 0xBA, CHR 0xD0, CHR 0xBE, CHR 0xD1, CHR 0x80, CHR 0xD0, CHR 0xBE, CHR 0xD1, CHR 0x81, CHR 0xD1, CHR 0x82], ''speed''),
      (''speed'', ''speed''),
      (''heading'', ''heading''),
      ([CHR 0xD0, CHR 0xBA, CHR 0xD1, CHR 0x83, CHR 0xD1, CHR 0x80, CHR 0xD1, CHR 0x81], ''heading''),
      ([CHR 0xD0, CHR 0xB2, CHR 0xD1, CHR 0x8B, CHR 0xD1, CHR 0x81, CHR 0xD0, CHR 0xBE, CHR 0xD1, CHR 0x82], ''altitude''),
      (''altitude'', ''altitude''),
      ([CHR 0xD1, CHR 0x83, CHR 0xD0, CHR 0xB3, CHR 0xD1, CHR 0x80, CHR 0xD0, CHR 0xBE, CHR 0xD0, CHR 0xB7], ''threat_level''),
      (''threat'', ''threat_level''),
      (''status'', ''status''),
      ([CHR 0xD1, CHR 0x81, CHR 0xD1, CHR 0x82, CHR 0xD0, CHR 0xB0, CHR 0xD1, CHR 0x82, CHR 0xD1, CHR 0x83, CHR 0xD1, CHR 0x81], ''status''),
      ([CHR 0xD0, CHR 0xBE, CHR 0xD0, CHR 0xBF, CHR 0xD0, CHR 0xB5, CHR 0xD1, CHR 0x80, CHR 0xD0, CHR 0xB0, CHR 0xD1, CHR 0x86, CHR 0xD0, CHR 0xB8, CHR 0xD0, CHR 0xBE, CHR 0xD0, CHR 0xBD], ''operational''),
      (''distance'', ''distance'')]"

definition THREAT_ORDER :: "(string \<times> nat) list" where
  "THREAT_ORDER = [(''low'', 1), (''medium'', 2), (''elevated'', 3), (''high'', 4), (''critical'', 5)]"

text \<open>Unit words of extractTimeWindow (\u043c\u0438\u043d\u0443\u0442, \u043c\u0438\u043d, minute, minutes; \u0434\u043d, day, days), the words for OR (' \u0438\u043b\u0438 ', ' or '), for "right now" and for coordinates (\u043a\u043e\u043e\u0440\u0434\u0438\u043d\u0430\u0442, lat, \u0448\u0438\u0440\u043e\u0442).\<close>

definition minute_units :: "string list" where
  "minute_units = [[CHR 0xD0, CHR 0xBC, CHR 0xD0, CHR 0xB8, CHR 0xD0, CHR 0xBD, CHR 0xD1, CHR 0x83, CHR 0xD1, CHR 0x82], [CHR 0xD0, CHR 0xBC, CHR 0xD0, CHR 0xB8, CHR 0xD0, CHR 0xBD], ''minute'', ''minutes'']"

definition day_units :: "string list" where
  "day_units = [[CHR 0xD0, CHR 0xB4, CHR 0xD0, CHR 0xBD], ''day'', ''days'']"

definition or_words :: "string list" where
  "or_words = ['' '' @ [CHR 0xD0, CHR 0xB8, CHR 0xD0, CHR 0xBB, CHR 0xD0, CHR 0xB8] @ '' '', '' or '']"

definition right_now_words :: "string list" where
  "right_now_words = [[CHR 0xD0, CHR 0xBF, CHR 0xD1, CHR 0x80, CHR 0xD1, CHR 0x8F, CHR 0xD0, CHR 0xBC, CHR 0xD0, CHR 0xBE] @ '' '' @ [CHR 0xD1, CHR 0x81, CHR 0xD0, CHR 0xB5, CHR 0xD0, CHR 0xB9, CHR 0xD1, CHR 0x87, CHR 0xD0, CHR 0xB0, CHR 0xD1, CHR 0x81], ''real-time'']"

definition coordinate_words :: "string list" where
  "coordinate_words = [[CHR 0xD0, CHR 0xBA, CHR 0xD0, CHR 0xBE, CHR 0xD0, CHR 0xBE, CHR 0xD1, CHR 0x80, CHR 0xD0, CHR 0xB4, CHR 0xD0, CHR 0xB8, CHR 0xD0, CHR 0xBD, CHR 0xD0, CHR 0xB0, CHR 0xD1, CHR 0x82], ''lat'', [CHR 0xD1, CHR 0x88, CHR 0xD0, CHR 0xB8, CHR 0xD1, CHR 0x80, CHR 0xD0, CHR 0xBE, CHR 0xD1, CHR 0x82]]"

subsection \<open>Extraction functions\<close>

text \<open>\<^verbatim>\<open>s.replace(',', '.')\<close>: the first comma becomes a dot.\<close>

fun replace_first :: "char \<Rightarrow> char \<Rightarrow> string \<Rightarrow> string" where
  "replace_first a b [] = []"
| "replace_first a b (c # cs) = (if c = a then b # cs else c # replace_first a b cs)"

text \<open>\<^verbatim>\<open>s.split(':')\<close>.\<close>

fun split_on :: "char \<Rightarrow> string \<Rightarrow> string list" where
  "split_on sep [] = [[]]"
| "split_on sep (c # cs) =
     (if c = sep then [] # split_on sep cs
      else case split_on sep cs of
             [] \<Rightarrow> [[c]]
           | p # ps \<Rightarrow> (c # p) # ps)"

text \<open>\<^verbatim>\<open>Array.from(new Set(xs))\<close> is \<open>set_of_list xs\<close>.\<close>

definition normalizeCategory :: "js_runtime \<Rightarrow> string option \<Rightarrow> string option" where
  "normalizeCategory rt v =
     (case v of
        None \<Rightarrow> None
      | Some s \<Rightarrow>
          if s = [] then None
          else let lower = toLowerCase rt s
               in case find (\<lambda>(key, normalized). str_includes lower key) CATEGORY_KEYWORDS of
                    Some (key, normalized) \<Rightarrow> Some normalized
                  | None \<Rightarrow> Some lower)"

record DetectedEntity =
  de_entityType :: "string option"
  de_entityLabel :: "string option"
  de_category :: "string option"
  de_intent :: intent
  de_tips :: "string list"

definition detectEntity :: "string \<Rightarrow> DetectedEntity" where
  "detectEntity lowerQuery =
     (case find (\<lambda>entry. \<exists>keyword \<in> set (ek_keywords entry). str_includes lowerQuery keyword)
             ENTITY_KEYWORDS of
        Some entry \<Rightarrow>
          \<lparr> de_entityType = Some (ek_entityType entry),
            de_entityLabel = Some (ek_label entry),
            de_category = ek_category entry,
            de_intent = (case ek_intent entry of None \<Rightarrow> IntentList | Some i \<Rightarrow> i),
            de_tips = (case ek_tips entry of None \<Rightarrow> [] | Some ts \<Rightarrow> ts) \<rparr>
      | None \<Rightarrow>
          \<lparr> de_entityType = None, de_entityLabel = None, de_category = None,
            de_intent = IntentList, de_tips = [] \<rparr>)"

text \<open>
  The extractors that return \<^verbatim>\<open>{ values: Set<string>; recognized: string[] }\<close>
  return the pair of the two.
\<close>

definition extractSectorFilters :: "js_runtime \<Rightarrow> string \<Rightarrow> string list \<times> string list" where
  "extractSectorFilters rt lowerQuery =
     (let matches = regex_exec rt RX_sector_ru lowerQuery @ regex_exec rt RX_sector_en lowerQuery
      in (set_of_list (map (\<lambda>m. toUpperCase rt (g1 m)) matches), map whole matches))"

definition extractLevel :: "string \<Rightarrow> string option" where
  "extractLevel lowerQuery =
     (case find (\<lambda>(key, v). str_includes lowerQuery key) LEVEL_KEYWORDS of
        Some (key, v) \<Rightarrow> Some v
      | None \<Rightarrow> None)"

definition extractStatusFilters :: "string \<Rightarrow> string list \<times> string list" where
  "extractStatusFilters lowerQuery =
     (let hits = filter (\<lambda>(keyword, normalized). str_includes lowerQuery keyword) STATUS_KEYWORDS
      in (set_of_list (map snd hits), map fst hits))"

definition extractCategoryFilters :: "js_runtime \<Rightarrow> string \<Rightarrow> string list \<times> string list" where
  "extractCategoryFilters rt lowerQuery =
     (let hits = filter (\<lambda>(keyword, normalized). str_includes lowerQuery keyword) CATEGORY_KEYWORDS;
          vals = set_of_list (map snd hits);
          recog = map fst hits
      in case regex_match rt RX_category lowerQuery of
           None \<Rightarrow> (vals, recog)
         | Some m \<Rightarrow>
             (case normalizeCategory rt (Some (g1 m)) of
                None \<Rightarrow> (vals, recog)
              | Some normalized \<Rightarrow>
                  if normalized = [] then (vals, recog)
                  else (set_add normalized vals, recog @ [g1 m])))"

definition window_of_match :: "js_runtime \<Rightarrow> rx_match \<Rightarrow> rat option option \<times> string option" where
  "window_of_match rt m =
     (let v = js_Number rt (g1 m);
          unit = toLowerCase rt (g2 m);
          hours = (if \<exists>token \<in> set minute_units. str_includes unit token
                   then map_option (\<lambda>x. x / 60) v
                   else if \<exists>token \<in> set day_units. str_includes unit token
                   then map_option (\<lambda>x. x * 24) v
                   else v)
      in (Some hours, Some (whole m)))"

definition extractTimeWindow :: "js_runtime \<Rightarrow> string \<Rightarrow> rat option option \<times> string option" where
  "extractTimeWindow rt lowerQuery =
     (case regex_match rt RX_window_last lowerQuery of
        Some m \<Rightarrow> window_of_match rt m
      | None \<Rightarrow>
     (case regex_match rt RX_window_za lowerQuery of
        Some m \<Rightarrow> window_of_match rt m
      | None \<Rightarrow>
     (case regex_match rt RX_window_within lowerQuery of
        Some m \<Rightarrow> window_of_match rt m
      | None \<Rightarrow>
          if \<exists>w \<in> set right_now_words. str_includes lowerQuery w
          then (Some (Some (1 / 4)), Some raw_right_now)
          else (None, None))))"

text \<open>
  \<open>parseTimeToReference\<close>: \<open>None\<close> is \<^verbatim>\<open>null\<close>; the time value of the date may be
  NaN.
\<close>

definition parseTimeToReference :: "js_runtime \<Rightarrow> string \<Rightarrow> int option option" where
  "parseTimeToReference rt timeHHMM =
     (case split_on CHR '':'' timeHHMM of
        [h, m] \<Rightarrow>
          (case js_Number rt h of
             None \<Rightarrow> None
           | Some hours \<Rightarrow>
          (case js_Number rt m of
             None \<Rightarrow> None
           | Some minutes \<Rightarrow> Some (ref_set_hours rt hours minutes)))
      | _ \<Rightarrow> None)"

text \<open>\<^verbatim>\<open>a < b\<close> and \<^verbatim>\<open>a >= b\<close> on numbers that may be NaN.\<close>

definition num_lt :: "('a::linorder) option \<Rightarrow> 'a option \<Rightarrow> bool" where
  "num_lt a b = (case (a, b) of (Some x, Some y) \<Rightarrow> x < y | _ \<Rightarrow> False)"

definition num_ge :: "('a::linorder) option \<Rightarrow> 'a option \<Rightarrow> bool" where
  "num_ge a b = (case (a, b) of (Some x, Some y) \<Rightarrow> x \<ge> y | _ \<Rightarrow> False)"

definition num_le :: "('a::linorder) option \<Rightarrow> 'a option \<Rightarrow> bool" where
  "num_le a b = (case (a, b) of (Some x, Some y) \<Rightarrow> x \<le> y | _ \<Rightarrow> False)"

definition extractTimeRange :: "js_runtime \<Rightarrow> string \<Rightarrow> TimeRange option" where
  "extractTimeRange rt lowerQuery =
     (let found = (case regex_match rt RX_range_from lowerQuery of
                     Some m \<Rightarrow> Some m
                   | None \<Rightarrow> regex_match rt RX_range_between lowerQuery)
      in case found of
           None \<Rightarrow> None
         | Some m \<Rightarrow>
             (case parseTimeToReference rt (g1 m) of
                None \<Rightarrow> None
              | Some start \<Rightarrow>
             (case parseTimeToReference rt (g2 m) of
                None \<Rightarrow> None
              | Some finish \<Rightarrow>
                  let adjustedEnd = (if num_lt finish start
                                     then map_option (\<lambda>t. t + 24 * 60 * 60 * 1000) finish
                                     else finish)
                  in Some \<lparr> tr_start = start, tr_end = adjustedEnd, tr_raw = whole m \<rparr>)))"

definition extractLimit :: "js_runtime \<Rightarrow> string \<Rightarrow> rat option option" where
  "extractLimit rt lowerQuery =
     (case regex_match rt RX_limit lowerQuery of
        Some m \<Rightarrow> Some (js_Number rt (g2 m))
      | None \<Rightarrow> None)"

definition normalizeAttributeAlias :: "js_runtime \<Rightarrow> string \<Rightarrow> string option" where
  "normalizeAttributeAlias rt alias =
     (let lower = toLowerCase rt alias
      in case find (\<lambda>(pat, attribute). str_includes lower pat) ATTRIBUTE_ALIASES of
           Some (pat, attribute) \<Rightarrow> Some attribute
         | None \<Rightarrow> None)"

definition extractComparisons :: "js_runtime \<Rightarrow> string \<Rightarrow> ComparisonFilter list" where
  "extractComparisons rt lowerQuery =
     List.map_filter
       (\<lambda>m. case normalizeAttributeAlias rt (g1 m) of
               None \<Rightarrow> None
             | Some attribute \<Rightarrow>
                 if attribute = [] then None
                 else let operator = g2 m;
                          rawValue = replace_first CHR '','' CHR ''.'' (g3 m);
                          v = (case js_Number rt rawValue of
                                 None \<Rightarrow> StrV (toLowerCase rt rawValue)
                               | Some r \<Rightarrow> NumV r)
                      in Some \<lparr> cf_attribute = attribute, cf_operator = operator, cf_value = v,
                                  cf_raw = whole m,
                                  cf_display = g1 m @ '' '' @ operator @ '' '' @ g3 m \<rparr>)
       (regex_exec rt RX_comparison lowerQuery)"

definition extractGeoFilter :: "js_runtime \<Rightarrow> string \<Rightarrow> GeoFilter option" where
  "extractGeoFilter rt query =
     (let normalized = toLowerCase rt query
      in if \<not> (\<exists>w \<in> set coordinate_words. str_includes normalized w) then None
         else
           let coordMatch = (case regex_match rt RX_geo_pair query of
                               Some m \<Rightarrow> Some m
                             | None \<Rightarrow> regex_match rt RX_geo_latlon query)
           in case coordMatch of
                None \<Rightarrow> None
              | Some m \<Rightarrow>
                  (case js_Number rt (replace_first CHR '','' CHR ''.'' (g1 m)) of
                     None \<Rightarrow> None
                   | Some lat \<Rightarrow>
                  (case js_Number rt (replace_first CHR '','' CHR ''.'' (g2 m)) of
                     None \<Rightarrow> None
                   | Some lon \<Rightarrow>
                       let radius = (case regex_match rt RX_radius normalized of
                                       Some r \<Rightarrow> js_Number rt (replace_first CHR '','' CHR ''.'' (g1 r))
                                     | None \<Rightarrow> Some 10)
                       in Some \<lparr> geo_lat = lat, geo_lon = lon,
                                   radiusKm = (case radius of None \<Rightarrow> 10 | Some r \<Rightarrow> r),
                                   geo_raw = whole m \<rparr>)))"

text \<open>A number in a template literal.\<close>

definition num_to_string :: "js_runtime \<Rightarrow> rat option \<Rightarrow> string" where
  "num_to_string rt x = (case x of None \<Rightarrow> ''NaN'' | Some r \<Rightarrow> number_toString rt r)"

subsection \<open>parseNaturalLanguage\<close>

text \<open>
  The record \<open>parsed\<close> as it is built before the test for an unrecognised query
  (lines 609 to 703 of queryEngine.ts).
\<close>

definition parse_fields :: "js_runtime \<Rightarrow> string \<Rightarrow> ParsedQuery" where
  "parse_fields rt query =
     (let lowerQuery = toLowerCase rt query;
          toks = filter (\<lambda>t. t \<noteq> []) (regex_split rt RX_token_sep lowerQuery);
          entity = detectEntity lowerQuery;
          recognized1 = (if truthy_str (de_entityLabel entity)
                         then [(str_or (de_entityLabel entity) [], ''entity'')] else []);
          tips1 = de_tips entity;
          logicOp = (if \<exists>w \<in> set or_words. str_includes lowerQuery w then LogicOR else LogicAND);
          sectorInfo = extractSectorFilters rt lowerQuery;
          recognized2 = recognized1 @ map (\<lambda>t. (t, ''sector'')) (snd sectorInfo);
          statusInfo = extractStatusFilters lowerQuery;
          recognized3 = recognized2 @ map (\<lambda>t. (t, ''status'')) (snd statusInfo);
          categoryInfo = extractCategoryFilters rt lowerQuery;
          categoryValues = (if truthy_str (de_category entity)
                            then set_add (str_or (de_category entity) []) (fst categoryInfo)
                            else fst categoryInfo);
          recognized4 = recognized3 @
                        (if truthy_str (de_category entity)
                         then [(str_or (de_category entity) [], ''category'')] else []) @
                        map (\<lambda>t. (t, ''category'')) (snd categoryInfo);
          levelF = extractLevel lowerQuery;
          recognized5 = recognized4 @
                        (if truthy_str levelF then [(str_or levelF [], ''level'')] else []);
          window = extractTimeWindow rt lowerQuery;
          recognized6 = recognized5 @
                        (if truthy_str (snd window)
                         then [(str_or (snd window) [], ''time_window'')] else []);
          rangeValue = extractTimeRange rt lowerQuery;
          recognized7 = recognized6 @
                        (case rangeValue of None \<Rightarrow> [] | Some r \<Rightarrow> [(tr_raw r, ''time_range'')]);
          geo = extractGeoFilter rt query;
          recognized8 = recognized7 @
                        (case geo of None \<Rightarrow> [] | Some g \<Rightarrow> [(geo_raw g, ''geo'')]);
          limitValue = extractLimit rt lowerQuery;
          recognized9 = recognized8 @
                        (case limitValue of None \<Rightarrow> []
                                   | Some n \<Rightarrow> [(''limit:'' @ num_to_string rt n, ''limit'')]);
          comps = extractComparisons rt lowerQuery;
          recognized10 = recognized9 @ map (\<lambda>c. (cf_raw c, ''comparison'')) comps
      in \<lparr> intent = de_intent entity,
           entityType = de_entityType entity,
           entityLabel = de_entityLabel entity,
           sectorFilters = fst sectorInfo,
           timeWindowHours = fst window,
           timeWindowRaw = snd window,
           timeRange = rangeValue,
           statusFilters = fst statusInfo,
           categoryFilters = categoryValues,
           levelFilter = levelF,
           logicOperator = logicOp,
           geoFilter = geo,
           limit = limitValue,
           comparisons = comps,
           tokens = toks,
           tips = tips1,
           recognized = recognized10,
           warnings = [] \<rparr>)"

text \<open>The rest of the function: the test, then the warnings and tips.\<close>

definition parseNaturalLanguage :: "js_runtime \<Rightarrow> string \<Rightarrow> ParsedQuery option" where
  "parseNaturalLanguage rt query =
     (let parsed = parse_fields rt query
      in if \<not> truthy_str (entityType parsed) \<and> length (categoryFilters parsed) = 0 \<and>
            length (statusFilters parsed) = 0 \<and> length (comparisons parsed) = 0
         then None
         else
           let w1 = (if \<not> truthy_str (entityType parsed) then [warn_no_entity] else []);
               w2 = (if logicOperator parsed = LogicOR \<and>
                        length (statusFilters parsed) + length (categoryFilters parsed) \<le> 1
                     then [warn_single_or] else []);
               w3 = (if timeRange parsed \<noteq> None \<and> truthy_num (timeWindowHours parsed)
                     then [warn_range_and_window] else []);
               t1 = (if length (sectorFilters parsed) = 0 then [tip_add_sector] else []);
               t2 = (if length (statusFilters parsed) \<noteq> 0 then [tip_more_statuses] else []);
               t3 = (if length (comparisons parsed) \<noteq> 0 then [tip_comparisons] else [])
           in Some (parsed\<lparr> warnings := warnings parsed @ w1 @ w2 @ w3,
                            tips := tips parsed @ t1 @ t2 @ t3 \<rparr>))"

section \<open>Query execution pipeline (queryEngine.ts, executeNaturalLanguageQuery)\<close>

definition BUDGET_EXHAUSTED :: string where
  "BUDGET_EXHAUSTED = ''BUDGET_EXHAUSTED''"

definition K_ANONYMITY :: string where
  "K_ANONYMITY = ''K_ANONYMITY''"

record QueryExplanation =
  ex_raw :: string
  ex_entity :: "string option"
  ex_filters :: "string list"
  ex_comparisons :: "string list"
  ex_timeWindow :: "string option"
  ex_timeRange :: "string option"
  ex_geo :: "string option"
  ex_limit :: "rat option option"
  ex_tips :: "string list"
  ex_warnings :: "string list"
  ex_intent :: intent
  ex_logic :: logic_operator
  ex_recognized :: "(string \<times> string) list"

text \<open>
  The field \<^verbatim>\<open>data\<close> of a result holds the node records, or the aggregate
  \<^verbatim>\<open>{ count, message }\<close>.
\<close>

datatype query_data = Records "GraphNode list" | Aggregate nat string

record QueryResult =
  qr_success :: bool
  qr_data :: "query_data option"
  qr_aggregated :: "bool option"
  qr_error :: "string option"
  qr_denialReason :: "string option"
  qr_explanation :: "QueryExplanation option"

subsection \<open>Helpers of the filters\<close>

text \<open>\<^verbatim>\<open>a ?? b\<close>.\<close>

definition js_nullish :: "jsval \<Rightarrow> jsval \<Rightarrow> jsval" where
  "js_nullish a b = (if a = JUndefined \<or> a = JNull then b else a)"

text \<open>
  \<^verbatim>\<open>v?.[0]\<close>. On a string it is the first UTF-16 code unit, which the model has
  only for a string that starts with an ASCII character.
\<close>

definition index0 :: "jsval \<Rightarrow> jsval" where
  "index0 v =
     (case v of
        JArr xs \<Rightarrow> (case xs of [] \<Rightarrow> JUndefined | x # _ \<Rightarrow> x)
      | JStr s \<Rightarrow> (case s of [] \<Rightarrow> JUndefined | c # _ \<Rightarrow> JStr [c])
      | JObj kvs \<Rightarrow> get_attr v ''0''
      | _ \<Rightarrow> JUndefined)"

text \<open>\<^verbatim>\<open>new Date(v)\<close>, as a time value.\<close>

definition time_clip :: "rat \<Rightarrow> int option" where
  "time_clip r =
     (if \<bar>r\<bar> \<le> 8640000000000000
      then Some (if r \<ge> 0 then \<lfloor>r\<rfloor> else \<lceil>r\<rceil>) else None)"

definition newDate :: "js_runtime \<Rightarrow> jsval \<Rightarrow> int option" where
  "newDate rt v =
     (case v of
        JStr s \<Rightarrow> date_parse rt s
      | JArr xs \<Rightarrow> date_parse rt (js_toString rt v)
      | JObj kvs \<Rightarrow> date_parse rt (js_toString rt v)
      | _ \<Rightarrow> (case toNumber rt v of None \<Rightarrow> None | Some r \<Rightarrow> time_clip r))"

text \<open>
  \<open>both_truthy\<close> is the test \<^verbatim>\<open>lhsThreat && rhsThreat\<close> of \<open>compareValues\<close>, with the
  two values when it holds.
\<close>

definition both_truthy ::
  "table_value option \<Rightarrow> table_value option \<Rightarrow> (table_value \<times> table_value) option" where
  "both_truthy a b =
     (case (a, b) of
        (Some x, Some y) \<Rightarrow> if truthy_lookup a \<and> truthy_lookup b then Some (x, y) else None
      | _ \<Rightarrow> None)"

definition compareValues :: "js_runtime \<Rightarrow> jsval \<Rightarrow> cmp_value \<Rightarrow> string \<Rightarrow> bool" where
  "compareValues rt lhs rhs operator =
     (if lhs = JUndefined \<or> lhs = JNull then False
      else case rhs of
        NumV r \<Rightarrow>
          (case toNumber rt lhs of
             None \<Rightarrow> False
           | Some lhsNumber \<Rightarrow>
               if operator = ''>'' then lhsNumber > r
               else if operator = ''>='' then lhsNumber \<ge> r
               else if operator = ''<'' then lhsNumber < r
               else if operator = ''<='' then lhsNumber \<le> r
               else if operator = ''='' then lhsNumber = r
               else if operator = ''!='' then lhsNumber \<noteq> r
               else False)
      | StrV s \<Rightarrow>
          let lhsString = toLowerCase rt (valueToString rt lhs);
              rhsString = toLowerCase rt s
          in if lhsString = rhsString \<and> operator = ''='' then True
             else if operator = ''!='' then lhsString \<noteq> rhsString
             else case both_truthy (table_get rt THREAT_ORDER lhsString)
                                   (table_get rt THREAT_ORDER rhsString) of
                    Some (lhsThreat, rhsThreat) \<Rightarrow>
                      if operator = ''>'' then js_gt lhsThreat rhsThreat
                      else if operator = ''>='' then js_ge lhsThreat rhsThreat
                      else if operator = ''<'' then js_lt lhsThreat rhsThreat
                      else if operator = ''<='' then js_le lhsThreat rhsThreat
                      else False
                  | None \<Rightarrow>
                      if operator = ''>'' then str_lt rhsString lhsString
                      else if operator = ''>='' then \<not> str_lt lhsString rhsString
                      else if operator = ''<'' then str_lt lhsString rhsString
                      else if operator = ''<='' then \<not> str_lt rhsString lhsString
                      else if operator = ''='' then lhsString = rhsString
                      else False)"

definition checkComparisons :: "js_runtime \<Rightarrow> GraphNode \<Rightarrow> ComparisonFilter list \<Rightarrow> bool" where
  "checkComparisons rt node comps =
     list_all (\<lambda>comparison.
        let v = js_nullish
                  (js_nullish (get_attr (n_attributes node) (cf_attribute comparison))
                     (get_attr (n_attributes node) (toUpperCase rt (cf_attribute comparison))))
                  (get_attr (n_attributes node) (toLowerCase rt (cf_attribute comparison)))
        in compareValues rt v (cf_value comparison) (cf_operator comparison)) comps"

definition getNodeTimestamp :: "js_runtime \<Rightarrow> GraphNode \<Rightarrow> int option" where
  "getNodeTimestamp rt node =
     (let candidates = [get_attr (n_attributes node) ''last_seen'',
                        get_attr (n_attributes node) ''timestamp'',
                        JStr (n_updated_at node), JStr (n_created_at node)]
      in case List.map_filter
                (\<lambda>candidate. if \<not> truthy candidate then None
                              else date_parse rt (valueToString rt candidate)) candidates of
           [] \<Rightarrow> None
         | t # _ \<Rightarrow> Some t)"

definition extractNodeCoordinates :: "js_runtime \<Rightarrow> GraphNode \<Rightarrow> (rat \<times> rat) option" where
  "extractNodeCoordinates rt node =
     (case get_attr (n_attributes node) ''coordinates'' of
        JArr xs \<Rightarrow>
          (case xs of
             a # b # _ \<Rightarrow>
               (case toNumber rt a of
                  None \<Rightarrow> None
                | Some lat \<Rightarrow> (case toNumber rt b of None \<Rightarrow> None | Some lon \<Rightarrow> Some (lat, lon)))
           | _ \<Rightarrow> None)
      | JStr s \<Rightarrow>
          (case regex_match rt RX_node_coord s of
             None \<Rightarrow> None
           | Some m \<Rightarrow>
               (case js_Number rt (replace_first CHR '','' CHR ''.'' (g1 m)) of
                  None \<Rightarrow> None
                | Some lat \<Rightarrow>
                    (case js_Number rt (replace_first CHR '','' CHR ''.'' (g2 m)) of
                       None \<Rightarrow> None
                     | Some lon \<Rightarrow> Some (lat, lon))))
      | _ \<Rightarrow> None)"

text \<open>
  \<open>takeWithPreferredOrder\<close>. The comparator of the sort is \<^verbatim>\<open>timeB - timeA\<close> on
  the parsed time stamps. When every time stamp parses it is a consistent order, and
  since \<^verbatim>\<open>sort\<close> is stable there is one list it can return: the nodes by
  descending time, nodes of equal time in their order of input; \<open>stable_sort\<close>
  computes it. When a time stamp does not parse the comparator returns NaN (taken as
  0) for every pair with that node; it is then no consistent order and the language
  leaves the resulting order to the engine. The runtime gives it, as the list of the
  positions of the input in their order of output. Every engine returns a permutation;
  for a table that gives none the array is left as it is.
\<close>

definition preferred_time :: "js_runtime \<Rightarrow> GraphNode \<Rightarrow> int option" where
  "preferred_time rt node =
     date_parse rt (valueToString rt
       (js_or (js_or (js_or (get_attr (n_attributes node) ''last_seen'')
                            (get_attr (n_attributes node) ''timestamp''))
                     (JStr (n_updated_at node)))
              (JStr (n_created_at node))))"

fun insert_sorted :: "('a \<Rightarrow> 'a \<Rightarrow> bool) \<Rightarrow> 'a \<Rightarrow> 'a list \<Rightarrow> 'a list" where
  "insert_sorted precedes x [] = [x]"
| "insert_sorted precedes x (y # ys) =
     (if precedes x y then x # y # ys else y # insert_sorted precedes x ys)"

definition stable_sort :: "('a \<Rightarrow> 'a \<Rightarrow> bool) \<Rightarrow> 'a list \<Rightarrow> 'a list" where
  "stable_sort precedes xs = foldl (\<lambda>acc x. insert_sorted precedes x acc) [] xs"

definition sort_by_time :: "js_runtime \<Rightarrow> GraphNode list \<Rightarrow> GraphNode list" where
  "sort_by_time rt nodes =
     (let keys = map (preferred_time rt) nodes
      in if list_all (\<lambda>k. k \<noteq> None) keys
         then stable_sort (\<lambda>a b. num_lt (preferred_time rt b) (preferred_time rt a)) nodes
         else let order = sort_inconsistent rt keys
              in if sort order = [0..<length nodes] then map (\<lambda>i. nodes ! i) order
                 else nodes)"

definition takeWithPreferredOrder :: "js_runtime \<Rightarrow> GraphNode list \<Rightarrow> rat \<Rightarrow> GraphNode list" where
  "takeWithPreferredOrder rt nodes maxCount =
     (if of_nat (length nodes) \<le> maxCount then nodes
      else let sortable = sort_by_time rt nodes
           in take (nat \<lfloor>maxCount\<rfloor>) sortable)"

subsection \<open>The filters\<close>

text \<open>
  Lines 134 to 219. Each block \<^verbatim>\<open>if (present) { filteredNodes = filteredNodes.filter(...) }\<close>
  of the source is one function here, from the field of the parsed query it reads and
  the nodes that are left to the nodes it keeps.
\<close>

definition filter_entity_type :: "string option \<Rightarrow> GraphNode list \<Rightarrow> GraphNode list" where
  "filter_entity_type entityType' allNodes =
     (if truthy_str entityType'
      then filter (\<lambda>node. Some (entity_type node) = entityType') allNodes
      else allNodes)"

definition filter_sectors :: "js_runtime \<Rightarrow> string list \<Rightarrow> GraphNode list \<Rightarrow> GraphNode list" where
  "filter_sectors rt sectorFilters' filteredNodes =
     (if length sectorFilters' \<noteq> 0
      then let sectorSet = map (toUpperCase rt) sectorFilters'
           in filter (\<lambda>node.
                let candidate = toUpperCase rt (valueToString rt
                      (js_or (js_or (get_attr (n_attributes node) ''sector'')
                                    (index0 (get_attr (n_attributes node) ''sectors'')))
                             (JStr [])))
                in candidate \<noteq> [] \<and> candidate \<in> set sectorSet) filteredNodes
      else filteredNodes)"

definition filter_level :: "string option \<Rightarrow> GraphNode list \<Rightarrow> GraphNode list" where
  "filter_level levelFilter' filteredNodes =
     (if truthy_str levelFilter'
      then filter (\<lambda>node. Some (n_classification_level node) = levelFilter') filteredNodes
      else filteredNodes)"

definition filter_time_window ::
  "js_runtime \<Rightarrow> rat option option \<Rightarrow> GraphNode list \<Rightarrow> GraphNode list" where
  "filter_time_window rt timeWindowHours' filteredNodes =
     (case timeWindowHours' of
        Some (Some hours) \<Rightarrow>
          if hours > 0
          then let cutoffTime = ref_minus_hours rt hours
               in filter (\<lambda>node.
                    let lastSeen = js_or (js_or (get_attr (n_attributes node) ''last_seen'')
                                                (get_attr (n_attributes node) ''timestamp''))
                                         (JStr (n_updated_at node))
                    in truthy lastSeen \<and> num_ge (newDate rt lastSeen) cutoffTime) filteredNodes
          else filteredNodes
      | _ \<Rightarrow> filteredNodes)"

definition filter_time_range ::
  "js_runtime \<Rightarrow> TimeRange option \<Rightarrow> GraphNode list \<Rightarrow> GraphNode list" where
  "filter_time_range rt timeRange' filteredNodes =
     (case timeRange' of
        None \<Rightarrow> filteredNodes
      | Some rng \<Rightarrow>
          filter (\<lambda>node.
            case getNodeTimestamp rt node of
              None \<Rightarrow> False
            | Some timestamp \<Rightarrow> num_ge (Some timestamp) (tr_start rng) \<and>
                                num_le (Some timestamp) (tr_end rng)) filteredNodes)"

definition filter_status :: "js_runtime \<Rightarrow> string list \<Rightarrow> GraphNode list \<Rightarrow> GraphNode list" where
  "filter_status rt statusFilters' filteredNodes =
     (if length statusFilters' \<noteq> 0
      then filter (\<lambda>node.
             let status = toLowerCase rt (valueToString rt
                   (js_or (js_or (get_attr (n_attributes node) ''status'')
                                 (get_attr (n_attributes node) ''operational''))
                          (JStr [])))
             in if status = [] then False
                else status \<in> set statusFilters') filteredNodes
      else filteredNodes)"

definition filter_category :: "js_runtime \<Rightarrow> string list \<Rightarrow> GraphNode list \<Rightarrow> GraphNode list" where
  "filter_category rt categoryFilters' filteredNodes =
     (if length categoryFilters' \<noteq> 0
      then filter (\<lambda>node.
             case normalizeCategory rt (Some (valueToString rt
                    (js_or (js_or (get_attr (n_attributes node) ''category'')
                                  (get_attr (n_attributes node) ''type''))
                           (JStr [])))) of
               None \<Rightarrow> False
             | Some category \<Rightarrow>
                 if category = [] then False
                 else category \<in> set categoryFilters') filteredNodes
      else filteredNodes)"

definition filter_geo :: "js_runtime \<Rightarrow> GeoFilter option \<Rightarrow> GraphNode list \<Rightarrow> GraphNode list" where
  "filter_geo rt geoFilter' filteredNodes =
     (case geoFilter' of
        None \<Rightarrow> filteredNodes
      | Some geo \<Rightarrow>
          filter (\<lambda>node.
            case extractNodeCoordinates rt node of
              None \<Rightarrow> False
            | Some (lat, lon) \<Rightarrow>
                num_le (distance_km rt (geo_lat geo) (geo_lon geo) lat lon)
                       (Some (radiusKm geo))) filteredNodes)"

definition filter_comparisons ::
  "js_runtime \<Rightarrow> ComparisonFilter list \<Rightarrow> GraphNode list \<Rightarrow> GraphNode list" where
  "filter_comparisons rt comparisons' filteredNodes =
     (if length comparisons' \<noteq> 0
      then filter (\<lambda>node. checkComparisons rt node comparisons') filteredNodes
      else filteredNodes)"

definition apply_limit :: "js_runtime \<Rightarrow> rat option option \<Rightarrow> GraphNode list \<Rightarrow> GraphNode list" where
  "apply_limit rt limit' filteredNodes =
     (case limit' of
        Some (Some maxCount) \<Rightarrow>
          if maxCount > 0 then takeWithPreferredOrder rt filteredNodes maxCount
          else filteredNodes
      | _ \<Rightarrow> filteredNodes)"

text \<open>The blocks in the order of the source.\<close>

definition applyQueryFilters ::
  "js_runtime \<Rightarrow> User \<Rightarrow> ParsedQuery \<Rightarrow> GraphNode list \<Rightarrow> GraphNode list" where
  "applyQueryFilters rt user parsedQuery allNodes =
     (let nodes = filter_entity_type (entityType parsedQuery) allNodes;
          accessibleNodes = filterAccessibleNodes rt user nodes;
          f1 = filter_sectors rt (sectorFilters parsedQuery) accessibleNodes;
          f2 = filter_level (levelFilter parsedQuery) f1;
          f3 = filter_time_window rt (timeWindowHours parsedQuery) f2;
          f4 = filter_time_range rt (timeRange parsedQuery) f3;
          f5 = filter_status rt (statusFilters parsedQuery) f4;
          f6 = filter_category rt (categoryFilters parsedQuery) f5;
          f7 = filter_geo rt (geoFilter parsedQuery) f6;
          f8 = filter_comparisons rt (comparisons parsedQuery) f7
      in apply_limit rt (limit parsedQuery) f8)"

text \<open>A node passes a block when the block, given the node alone, keeps it.\<close>

definition passes :: "(GraphNode list \<Rightarrow> GraphNode list) \<Rightarrow> GraphNode \<Rightarrow> bool" where
  "passes stage node = (stage [node] \<noteq> [])"

subsection \<open>Explanation, audit and the pipeline\<close>

fun join_with :: "string \<Rightarrow> string list \<Rightarrow> string" where
  "join_with sep [] = []"
| "join_with sep [x] = x"
| "join_with sep (x # y # ys) = x @ sep @ join_with sep (y # ys)"

definition buildExplanation :: "js_runtime \<Rightarrow> ParsedQuery \<Rightarrow> string \<Rightarrow> QueryExplanation" where
  "buildExplanation rt parsed rawQuery =
     (let filters =
            (if length (sectorFilters parsed) \<noteq> 0
             then [lbl_sectors @ join_with '', '' (sectorFilters parsed)] else []) @
            (if truthy_str (levelFilter parsed)
             then [lbl_level @ str_or (levelFilter parsed) []] else []) @
            (if length (categoryFilters parsed) \<noteq> 0
             then [lbl_categories @ join_with '', '' (map (toUpperCase rt) (categoryFilters parsed))]
             else []) @
            (if length (statusFilters parsed) \<noteq> 0
             then [lbl_statuses @ join_with '', '' (statusFilters parsed)] else [])
      in \<lparr> ex_raw = rawQuery,
           ex_entity = entityLabel parsed,
           ex_filters = filters,
           ex_comparisons = map cf_display (comparisons parsed),
           ex_timeWindow = timeWindowRaw parsed,
           ex_timeRange = (case timeRange parsed of
                             None \<Rightarrow> None
                           | Some r \<Rightarrow> Some (toLocaleTimeString rt (tr_start r) @ lbl_dash @
                                              toLocaleTimeString rt (tr_end r))),
           ex_geo = (case geoFilter parsed of
                       None \<Rightarrow> None
                     | Some g \<Rightarrow> Some (lbl_coordinates @ toFixed3 rt (geo_lat g) @ '', '' @
                                        toFixed3 rt (geo_lon g) @ lbl_plus_minus @
                                        number_toString rt (radiusKm g) @ lbl_km)),
           ex_limit = limit parsed,
           ex_tips = set_of_list (tips parsed),
           ex_warnings = warnings parsed,
           ex_intent = intent parsed,
           ex_logic = logicOperator parsed,
           ex_recognized = recognized parsed \<rparr>)"

text \<open>
  What one run of the pipeline reads from its environment: \<^verbatim>\<open>Date.now()\<close> inside
  \<open>decrementBudget\<close>, and the random id and the time stamp of the audit entry.
\<close>

record QueryEnv =
  env_now :: int
  env_audit_rand :: string
  env_audit_time :: string

definition logAuditEntry ::
  "QueryEnv \<Rightarrow> User \<Rightarrow> string \<Rightarrow> string \<Rightarrow> nat \<Rightarrow> bool \<Rightarrow> string option \<Rightarrow> Store \<Rightarrow> Store" where
  "logAuditEntry env user queryText queryType resultCount granted denialReason st =
     insertAuditLog (env_audit_rand env) (env_audit_time env)
       (u_id user) queryText queryType resultCount granted denialReason st"

definition unrecognized_explanation :: "string \<Rightarrow> QueryExplanation" where
  "unrecognized_explanation queryText =
     \<lparr> ex_raw = queryText, ex_entity = None, ex_filters = [], ex_comparisons = [],
       ex_timeWindow = None, ex_timeRange = None, ex_geo = None, ex_limit = None,
       ex_tips = [tip_name_entity, tip_add_context], ex_warnings = [],
       ex_intent = IntentList, ex_logic = LogicAND, ex_recognized = [] \<rparr>"

text \<open>
  The pipeline after a successful parse (lines 134 to 264); the result is the value
  returned, the caller's user object and the store.
\<close>

definition runParsedQuery ::
  "js_runtime \<Rightarrow> QueryEnv \<Rightarrow> Store \<Rightarrow> User \<Rightarrow> string \<Rightarrow> ParsedQuery \<Rightarrow>
   QueryResult \<times> User \<times> Store" where
  "runParsedQuery rt env st user queryText parsedQuery =
     (let filteredNodes = applyQueryFilters rt user parsedQuery (getAllNodes st);
          st1 = decrementBudget rt (env_now env) (u_id user) st;
          user1 = (if query_budget user > 0
                   then user\<lparr> query_budget := query_budget user - 1 \<rparr> else user)
      in if length filteredNodes = 0
         then (\<lparr> qr_success = True, qr_data = Some (Records []), qr_aggregated = Some False,
                  qr_error = None, qr_denialReason = None,
                  qr_explanation = Some (buildExplanation rt parsedQuery queryText) \<rparr>,
               user1,
               logAuditEntry env user1 queryText ''NL_QUERY'' 0 True None st1)
         else if \<not> checkKAnonymity (length filteredNodes) 2
         then (\<lparr> qr_success = True,
                  qr_data = Some (Aggregate (length filteredNodes) msg_k_anonymity),
                  qr_aggregated = Some True, qr_error = None,
                  qr_denialReason = Some K_ANONYMITY,
                  qr_explanation = Some (buildExplanation rt parsedQuery queryText) \<rparr>,
               user1,
               logAuditEntry env user1 queryText ''NL_QUERY'' (length filteredNodes) True
                 (Some K_ANONYMITY) st1)
         else (\<lparr> qr_success = True, qr_data = Some (Records filteredNodes),
                  qr_aggregated = None, qr_error = None, qr_denialReason = None,
                  qr_explanation = Some (buildExplanation rt parsedQuery queryText) \<rparr>,
               user1,
               logAuditEntry env user1 queryText ''NL_QUERY'' (length filteredNodes) True None
                 st1))"

definition executeNaturalLanguageQuery ::
  "js_runtime \<Rightarrow> QueryEnv \<Rightarrow> Store \<Rightarrow> User \<Rightarrow> string \<Rightarrow> QueryResult \<times> User \<times> Store" where
  "executeNaturalLanguageQuery rt env st user queryText =
     (if \<not> checkQueryBudget user
      then (\<lparr> qr_success = False, qr_data = None, qr_aggregated = None,
               qr_error = Some msg_budget_exhausted,
               qr_denialReason = Some msg_budget_denial, qr_explanation = None \<rparr>,
            user,
            logAuditEntry env user queryText ''NL_QUERY'' 0 False (Some BUDGET_EXHAUSTED) st)
      else case parseNaturalLanguage rt queryText of
             None \<Rightarrow>
               (\<lparr> qr_success = False, qr_data = None, qr_aggregated = None,
                   qr_error = Some msg_unrecognized, qr_denialReason = None,
                   qr_explanation = Some (unrecognized_explanation queryText) \<rparr>,
                user, st)
           | Some parsedQuery \<Rightarrow> runParsedQuery rt env st user queryText parsedQuery)"

section \<open>Example data\<close>

text \<open>
  Users and nodes in the shape of the seed data (usersData.ts, graphData.ts), used to
  run the definitions on concrete inputs. \<open>guest\<close> is a user record without a sector
  attribute.
\<close>

definition analyst_a :: User where
  "analyst_a = \<lparr> u_id = ''local-analyst_a'', username = ''analyst_a'',
     clearance_level = ''CONFIDENTIAL'',
     u_attributes = JObj [(''sector'', JStr ''A''), (''sectors'', JArr [JStr ''A'']),
                          (''role'', JStr ''analyst'')],
     query_budget = 8, budget_reset_at = ''2024-05-12T11:00:00.000Z'' \<rparr>"

definition commander :: User where
  "commander = \<lparr> u_id = ''local-commander'', username = ''commander'',
     clearance_level = ''SECRET'',
     u_attributes = JObj [(''sector'', JStr ''ALL''),
                          (''sectors'', JArr [JStr ''A'', JStr ''B'', JStr ''C'']),
                          (''role'', JStr ''commander'')],
     query_budget = 20, budget_reset_at = ''2024-05-12T11:00:00.000Z'' \<rparr>"

definition guest :: User where
  "guest = \<lparr> u_id = ''local-guest'', username = ''guest'',
     clearance_level = ''CONFIDENTIAL'',
     u_attributes = JObj [(''role'', JStr ''analyst'')],
     query_budget = 5, budget_reset_at = ''2024-05-12T11:00:00.000Z'' \<rparr>"

definition mk_node :: "string \<Rightarrow> string \<Rightarrow> string \<Rightarrow> jsval \<Rightarrow> GraphNode" where
  "mk_node logical level etype attributes =
     \<lparr> n_id = logical @ ''_'' @ level, n_logical_id = logical,
       n_classification_level = level, entity_type = etype, n_name = logical,
       n_attributes = attributes,
       n_created_at = ''2024-05-12T10:00:00Z'', n_updated_at = ''2024-05-12T10:00:00Z'' \<rparr>"

definition target_uav_1_C :: GraphNode where
  "target_uav_1_C = mk_node ''target_uav_1'' ''CONFIDENTIAL'' ''Target''
     (JObj [(''sector'', JStr ''A''), (''category'', JStr ''UAV''), (''speed'', JNum 180)])"

definition target_uav_1_S :: GraphNode where
  "target_uav_1_S = mk_node ''target_uav_1'' ''SECRET'' ''Target''
     (JObj [(''sector'', JStr ''A''), (''category'', JStr ''UAV''), (''speed'', JNum 180)])"

definition target_group_sector_b_C :: GraphNode where
  "target_group_sector_b_C = mk_node ''target_group_sector_b'' ''CONFIDENTIAL'' ''Target''
     (JObj [(''sector'', JStr ''B''), (''category'', JStr ''AirGroup'')])"

definition sensor_radar_a_C :: GraphNode where
  "sensor_radar_a_C = mk_node ''sensor_radar_a'' ''CONFIDENTIAL'' ''Sensor''
     (JObj [(''sector'', JStr ''A''), (''platform'', JStr ''radar''), (''status'', JStr ''online'')])"

definition command_center_alpha_S :: GraphNode where
  "command_center_alpha_S = mk_node ''command_center_alpha'' ''SECRET'' ''CommandPost''
     (JObj [(''sector'', JStr ''A''), (''status'', JStr ''operational'')])"

definition weather_note_U :: GraphNode where
  "weather_note_U = mk_node ''weather_note'' ''UNCLASSIFIED'' ''Event''
     (JObj [(''description'', JStr ''fog'')])"

text \<open>A node whose level is the name of a member of \<^verbatim>\<open>Object.prototype\<close>.\<close>

definition probe_constructor :: GraphNode where
  "probe_constructor = mk_node ''probe'' ''constructor'' ''Event'' (JObj [])"

definition mk_edge :: "string \<Rightarrow> string \<Rightarrow> string \<Rightarrow> string \<Rightarrow> string \<Rightarrow> GraphEdge" where
  "mk_edge logical level source target rtype =
     \<lparr> e_id = logical @ ''_'' @ level, e_logical_id = logical,
       e_classification_level = level, source_node_id = source, target_node_id = target,
       relation_type = rtype, e_attributes = JObj [],
       e_created_at = ''2024-05-12T10:00:00Z'' \<rparr>"

text \<open>
  \<open>rel_detect_1_S\<close> and \<open>rel_command_1_S\<close> are edges of the seed data: they are
  classified SECRET and have an endpoint that is a CONFIDENTIAL node.
\<close>

definition rel_detect_1_S :: GraphEdge where
  "rel_detect_1_S = mk_edge ''rel_detect_1'' ''SECRET''
     ''sensor_radar_a_CONFIDENTIAL'' ''target_uav_1_SECRET'' ''DETECTED_BY''"

definition rel_command_1_S :: GraphEdge where
  "rel_command_1_S = mk_edge ''rel_command_1'' ''SECRET''
     ''command_center_alpha_SECRET'' ''sensor_radar_a_CONFIDENTIAL'' ''COMMANDS''"

definition rel_track_1_C :: GraphEdge where
  "rel_track_1_C = mk_edge ''rel_track_1'' ''CONFIDENTIAL''
     ''sensor_radar_a_CONFIDENTIAL'' ''target_uav_1_CONFIDENTIAL'' ''TRACKS''"

subsection \<open>A runtime for the examples\<close>

text \<open>
  \<open>demo_runtime\<close> tabulates the engine on the values the examples use: ASCII text
  that no pattern of the source matches, and the timestamps listed here
  (2024-05-12T10:00:00Z is 1715508000000 ms). The members of \<^verbatim>\<open>Object.prototype\<close>
  print as built-in functions do. The fields the examples do not reach (numbers in
  strings, number printing, date arithmetic, distances, the order of a sort with
  unparsed time stamps) hold a fixed value.
\<close>

definition ascii_lower :: "char \<Rightarrow> char" where
  "ascii_lower c =
     (case map_of (zip ''ABCDEFGHIJKLMNOPQRSTUVWXYZ'' ''abcdefghijklmnopqrstuvwxyz'') c of
        None \<Rightarrow> c | Some d \<Rightarrow> d)"

definition ascii_upper :: "char \<Rightarrow> char" where
  "ascii_upper c =
     (case map_of (zip ''abcdefghijklmnopqrstuvwxyz'' ''ABCDEFGHIJKLMNOPQRSTUVWXYZ'') c of
        None \<Rightarrow> c | Some d \<Rightarrow> d)"

text \<open>The pieces of a string between runs of spaces and commas.\<close>

fun ascii_words_acc :: "string \<Rightarrow> string \<Rightarrow> string list" where
  "ascii_words_acc w [] = [rev w]"
| "ascii_words_acc w (c # cs) =
     (if c = CHR '' '' \<or> c = CHR '',''
      then (if w = [] then ascii_words_acc [] cs else rev w # ascii_words_acc [] cs)
      else ascii_words_acc (c # w) cs)"

definition ascii_words :: "string \<Rightarrow> string list" where
  "ascii_words s = ascii_words_acc [] s"

definition demo_dates :: "(string \<times> int) list" where
  "demo_dates =
     [(''2024-05-12T09:00:00.000Z'', 1715504400000),
      (''2024-05-12T10:00:00Z'', 1715508000000),
      (''2024-05-12T11:00:00.000Z'', 1715511600000),
      (''2024-05-12T12:00:00.000Z'', 1715515200000)]"

definition demo_runtime :: js_runtime where
  "demo_runtime =
     \<lparr> toLowerCase = map ascii_lower,
       toUpperCase = map ascii_upper,
       js_toString = (\<lambda>v. case v of JBool b \<Rightarrow> (if b then ''true'' else ''false'')
                                   | JNull \<Rightarrow> ''null'' | JUndefined \<Rightarrow> ''undefined''
                                   | _ \<Rightarrow> ''[object Object]''),
       js_Number = (\<lambda>s. if s = [] then Some 0 else None),
       number_toString = (\<lambda>r. ''0''),
       toFixed3 = (\<lambda>r. ''0.000''),
       date_parse = map_of demo_dates,
       toISOString = (\<lambda>t. case map_of (map (\<lambda>(s, t). (t, s)) demo_dates) t of
                              None \<Rightarrow> [] | Some s \<Rightarrow> s),
       toLocaleTimeString = (\<lambda>t. []),
       ref_minus_hours = (\<lambda>h. None),
       ref_set_hours = (\<lambda>h m. None),
       regex_exec = (\<lambda>p s. []),
       regex_split = (\<lambda>p s. ascii_words s),
       distance_km = (\<lambda>lat1 lon1 lat2 lon2. None),
       member_toString = (\<lambda>k. if k = ''__proto__'' then ''[object Object]''
                              else ''function '' @ (if k = ''constructor'' then ''Object'' else k) @
                                   ''() { [native code] }''),
       sort_inconsistent = (\<lambda>keys. [0..<length keys]) \<rparr>"

definition demo_store :: Store where
  "demo_store =
     \<lparr> usersStore = [analyst_a, commander],
       nodesStore = [target_uav_1_C, target_uav_1_S, target_group_sector_b_C,
                     sensor_radar_a_C, command_center_alpha_S, weather_note_U],
       edgesStore = [rel_track_1_C, rel_detect_1_S, rel_command_1_S],
       auditLogStore = [] \<rparr>"

subsection \<open>Options and environments for the examples\<close>

definition virtual_options :: GraphDataOptions where
  "virtual_options = \<lparr> opt_mode = Virtual, opt_level = None, overlayLevels = None \<rparr>"



definition demo_env :: QueryEnv where
  "demo_env = \<lparr> env_now = 1715508000000, env_audit_rand = ''k3x9qa7b'',
                 env_audit_time = ''2024-05-12T10:00:00.000Z'' \<rparr>"

section \<open>Verified properties\<close>

lemmas example_defs =
  analyst_a_def commander_def guest_def mk_node_def target_uav_1_C_def target_uav_1_S_def
  target_group_sector_b_C_def sensor_radar_a_C_def command_center_alpha_S_def
  weather_note_U_def probe_constructor_def mk_edge_def rel_detect_1_S_def rel_command_1_S_def rel_track_1_C_def

subsection \<open>Access policy\<close>

lemma strict_eq_string [simp]: "strict_eq v (JStr s) = (v = JStr s)"
  by (cases v) (auto simp: strict_eq_def)

lemma member_not_in_tables:
  "k \<in> set OBJECT_PROTOTYPE_MEMBERS \<Longrightarrow>
   map_of CLEARANCE_LEVELS k = None \<and> map_of CLEARANCE_ORDER k = None \<and> spec_rank k = 0"
  by (auto simp: OBJECT_PROTOTYPE_MEMBERS_def CLEARANCE_LEVELS_def CLEARANCE_ORDER_def
                 spec_rank_def)

lemma level_value:
  "lookup_or (table_get rt CLEARANCE_LEVELS level) (TNum 0) =
     (if level \<in> set OBJECT_PROTOTYPE_MEMBERS then TMember (member_toString rt level)
      else TNum (spec_rank level))"
  using member_not_in_tables [of level]
  by (auto simp: lookup_or_def table_get_def truthy_lookup_def CLEARANCE_LEVELS_def
                 spec_rank_def)

lemma order_rank_value:
  "order_rank rt level =
     (if level \<in> set OBJECT_PROTOTYPE_MEMBERS then TMember (member_toString rt level)
      else TNum (spec_rank level))"
  using member_not_in_tables [of level]
  by (auto simp: order_rank_def lookup_nullish_def table_get_def CLEARANCE_ORDER_def
                 spec_rank_def)

lemma checkClearance_rule:
  "checkClearance rt userLevel dataLevel =
     (if userLevel \<in> set OBJECT_PROTOTYPE_MEMBERS
      then dataLevel \<in> set OBJECT_PROTOTYPE_MEMBERS \<and>
           \<not> str_lt (member_toString rt userLevel) (member_toString rt dataLevel)
      else dataLevel \<notin> set OBJECT_PROTOTYPE_MEMBERS \<and>
           spec_rank dataLevel \<le> spec_rank userLevel)"
  by (simp add: checkClearance_def level_value js_ge_def Let_def not_less)

text \<open>
  A level that names a member of \<^verbatim>\<open>Object.prototype\<close> is not ranked 0 by the code:
  against the number of a level of the table the inherited function compares as NaN,
  so a user cleared SECRET is refused data whose level is \<^verbatim>\<open>constructor\<close>.
\<close>

lemma checkClearance_inherited_member:
  "\<not> checkClearance rt ''SECRET'' ''constructor'' \<and>
   spec_rank ''constructor'' \<le> spec_rank ''SECRET''"
  by (simp add: checkClearance_rule OBJECT_PROTOTYPE_MEMBERS_def spec_rank_def)

lemma checkSectorAccess_unfold:
  "checkSectorAccess user data =
     (if get_attr (u_attributes user) ''role'' = JStr ''commander'' then True
      else if \<not> truthy (get_attr (u_attributes user) ''sector'') then False
      else if \<not> truthy (get_attr (item_attributes data) ''sector'') then True
      else strict_eq (get_attr (u_attributes user) ''sector'')
                     (get_attr (item_attributes data) ''sector''))"
  by (simp add: checkSectorAccess_def Let_def)

text \<open>
  C1, as the code has it. The claim's condition lacks the guard on the user's own
  sector: a user who is not a commander and has no (truthy) sector attribute is
  refused every node, also the nodes that carry no sector. And the rank of the claim is
  the rank of the code only for levels that do not name a member inherited from
  \<^verbatim>\<open>Object.prototype\<close>. For every user whose clearance level is no such name, and
  every node list, the filter keeps exactly the nodes N whose level is no such name
  either, with rank(U.clearance_level) >= rank(N.classification_level)
  (UNCLASSIFIED = 0, CONFIDENTIAL = 1, SECRET = 2, any other level 0) and
  (U's role is "commander", or U has a sector attribute and N has none or N's sector
  is strictly equal to U's), in the order of the input. "Has no sector attribute" is
  the code's test \<^verbatim>\<open>!sector\<close>: absent, or a falsy value such as the empty string.
\<close>

theorem C1_filterAccessibleNodes_rule:
  assumes "clearance_level user \<notin> set OBJECT_PROTOTYPE_MEMBERS"
  shows "filterAccessibleNodes rt user nodes =
     filter (\<lambda>node.
        n_classification_level node \<notin> set OBJECT_PROTOTYPE_MEMBERS \<and>
        spec_rank (clearance_level user) \<ge> spec_rank (n_classification_level node) \<and>
        (get_attr (u_attributes user) ''role'' = JStr ''commander'' \<or>
         (truthy (get_attr (u_attributes user) ''sector'') \<and>
          (\<not> truthy (get_attr (n_attributes node) ''sector'') \<or>
           strict_eq (get_attr (u_attributes user) ''sector'')
                     (get_attr (n_attributes node) ''sector''))))) nodes"
  unfolding filterAccessibleNodes_def using assms
  by (intro filter_cong) (auto simp: checkClearance_rule checkSectorAccess_unfold)

theorem C1_filterAccessibleNodes_rule_witness:
  "clearance_level analyst_a \<notin> set OBJECT_PROTOTYPE_MEMBERS \<and>
   filterAccessibleNodes demo_runtime analyst_a
     [target_uav_1_C, target_uav_1_S, target_group_sector_b_C, weather_note_U,
      probe_constructor]
   = [target_uav_1_C, weather_note_U]"
proof -
  have u: "clearance_level analyst_a \<notin> set OBJECT_PROTOTYPE_MEMBERS"
    by (simp add: analyst_a_def OBJECT_PROTOTYPE_MEMBERS_def)
  from C1_filterAccessibleNodes_rule [OF u, of demo_runtime
     "[target_uav_1_C, target_uav_1_S, target_group_sector_b_C, weather_note_U,
       probe_constructor]"] u
  show ?thesis
    by (simp add: example_defs strict_eq_def spec_rank_def OBJECT_PROTOTYPE_MEMBERS_def)
qed

text \<open>
  The claim of C1 as it is written fails for \<open>guest\<close>, who has clearance CONFIDENTIAL,
  is no commander and has no sector attribute, on the UNCLASSIFIED node
  \<open>weather_note_U\<close>, which has no sector attribute: the claimed condition holds, and
  the filter drops the node.
\<close>

theorem C1_counterexample:
  "\<not> (weather_note_U \<in> set (filterAccessibleNodes demo_runtime guest [weather_note_U]) \<longleftrightarrow>
        spec_rank (clearance_level guest) \<ge> spec_rank (n_classification_level weather_note_U) \<and>
        (get_attr (u_attributes guest) ''role'' = JStr ''commander'' \<or>
         get_attr (n_attributes weather_note_U) ''sector'' = JUndefined \<or>
         get_attr (n_attributes weather_note_U) ''sector'' = get_attr (u_attributes guest) ''sector''))"
  by (simp add: filterAccessibleNodes_def checkClearance_rule checkSectorAccess_unfold
                example_defs spec_rank_def OBJECT_PROTOTYPE_MEMBERS_def)

text \<open>
  C2: the sector check is the cascade of the claim. It returns true when the user's
  role attribute is "commander"; otherwise false when the user has no sector
  attribute; otherwise true when the data item (node or edge) has no sector attribute;
  otherwise it is the strict equality of the two sector attributes. "Has no sector
  attribute" is the code's test \<^verbatim>\<open>!sector\<close>, which holds when the attribute is absent
  and also when it is present with a falsy value (empty string, 0, null, false); for
  sector codes, which are non-empty strings, the two readings agree.
\<close>

theorem C2_checkSectorAccess_cascade:
  "checkSectorAccess user data =
     (if get_attr (u_attributes user) ''role'' = JStr ''commander'' then True
      else if \<not> truthy (get_attr (u_attributes user) ''sector'') then False
      else if \<not> truthy (get_attr (item_attributes data) ''sector'') then True
      else strict_eq (get_attr (u_attributes user) ''sector'')
                     (get_attr (item_attributes data) ''sector''))"
  by (rule checkSectorAccess_unfold)

theorem C2_checkSectorAccess_cascade_witness:
  "checkSectorAccess commander (NodeItem target_group_sector_b_C) \<and>
   \<not> checkSectorAccess guest (NodeItem weather_note_U) \<and>
   checkSectorAccess analyst_a (NodeItem weather_note_U) \<and>
   checkSectorAccess analyst_a (NodeItem target_uav_1_S) \<and>
   \<not> checkSectorAccess analyst_a (NodeItem target_group_sector_b_C)"
  using C2_checkSectorAccess_cascade [of commander "NodeItem target_group_sector_b_C"]
        C2_checkSectorAccess_cascade [of guest "NodeItem weather_note_U"]
        C2_checkSectorAccess_cascade [of analyst_a "NodeItem weather_note_U"]
        C2_checkSectorAccess_cascade [of analyst_a "NodeItem target_uav_1_S"]
        C2_checkSectorAccess_cascade [of analyst_a "NodeItem target_group_sector_b_C"]
  by (simp add: example_defs strict_eq_def)

subsection \<open>Budget reset\<close>

lemma maybeResetBudget_parsed:
  "date_parse rt (budget_reset_at user) = Some resetAt \<Longrightarrow>
   maybeResetBudget rt now user =
     (if resetAt \<le> now
      then user\<lparr> query_budget := getMaxBudget (clearance_level user),
                budget_reset_at := toISOString rt (now + 3600000) \<rparr>
      else user)"
  by (simp add: maybeResetBudget_def Let_def)

lemma maybeResetBudget_unparsed:
  "date_parse rt (budget_reset_at user) = None \<Longrightarrow> maybeResetBudget rt now user = user"
  by (simp add: maybeResetBudget_def)

text \<open>
  C6: both reads of a user, \<open>findUserById\<close> and \<open>findUserByUsername\<close>, apply
  \<open>maybeResetBudget\<close> to the stored user they find, keep the result in the store and
  return it. When the stored \<open>budget_reset_at\<close> parses to the instant \<open>resetAt\<close> and
  \<open>now \<ge> resetAt\<close>, the budget becomes 20 for SECRET, 8 for CONFIDENTIAL and 5 for
  every other clearance, and \<open>budget_reset_at\<close> becomes the ISO string of \<open>now\<close> plus
  3600000 ms; when \<open>now < resetAt\<close>, the user record, and so both fields, are
  unchanged.
\<close>

theorem C6_read_resets_budget:
  assumes "date_parse rt (budget_reset_at (usersStore st ! i)) = Some resetAt"
  shows "(let user = usersStore st ! i;
              user' = (if now \<ge> resetAt
                       then user\<lparr> query_budget :=
                                    (if clearance_level user = ''SECRET'' then 20
                                     else if clearance_level user = ''CONFIDENTIAL'' then 8
                                     else 5),
                                  budget_reset_at := toISOString rt (now + 60 * 60 * 1000) \<rparr>
                       else user)
          in maybeResetBudget rt now user = user' \<and>
             (find_index (\<lambda>u. u_id u = ident) (usersStore st) = Some i \<longrightarrow>
                findUserById rt now ident st =
                  (Some user', st\<lparr> usersStore := (usersStore st)[i := user'] \<rparr>)) \<and>
             (find_index (\<lambda>u. toLowerCase rt (username u) = toLowerCase rt name)
                         (usersStore st) = Some i \<longrightarrow>
                findUserByUsername rt now name st =
                  (Some user', st\<lparr> usersStore := (usersStore st)[i := user'] \<rparr>)))"
  using assms
  by (simp add: findUserById_def findUserByUsername_def maybeResetBudget_parsed
                getMaxBudget_def Let_def)

theorem C6_read_resets_budget_witness:
  "fst (findUserById demo_runtime 1715511600000 ''local-analyst_a''
          (demo_store\<lparr> usersStore := [analyst_a\<lparr> query_budget := 2 \<rparr>, commander] \<rparr>)) =
     Some (analyst_a\<lparr> query_budget := 8, budget_reset_at := ''2024-05-12T12:00:00.000Z'' \<rparr>) \<and>
   fst (findUserById demo_runtime 1715508000000 ''local-commander''
          (demo_store\<lparr> usersStore := [analyst_a, commander\<lparr> query_budget := 3 \<rparr>] \<rparr>)) =
     Some (commander\<lparr> query_budget := 3 \<rparr>) \<and>
   fst (findUserByUsername demo_runtime 1715511600000 ''Analyst_A''
          (demo_store\<lparr> usersStore := [analyst_a\<lparr> query_budget := 2 \<rparr>, commander] \<rparr>)) =
     Some (analyst_a\<lparr> query_budget := 8, budget_reset_at := ''2024-05-12T12:00:00.000Z'' \<rparr>) \<and>
   fst (findUserByUsername demo_runtime 1715508000000 ''commander''
          (demo_store\<lparr> usersStore := [analyst_a, commander\<lparr> query_budget := 3 \<rparr>] \<rparr>)) =
     Some (commander\<lparr> query_budget := 3 \<rparr>)"
proof -
  let ?sa = "demo_store\<lparr> usersStore := [analyst_a\<lparr> query_budget := 2 \<rparr>, commander] \<rparr>"
  have a: "find_index (\<lambda>u. u_id u = ''local-analyst_a'') (usersStore ?sa) = Some 0"
    by (simp add: demo_store_def analyst_a_def)
  have a': "find_index (\<lambda>u. toLowerCase demo_runtime (username u) =
                              toLowerCase demo_runtime ''Analyst_A'') (usersStore ?sa) = Some 0"
    by (simp add: demo_store_def analyst_a_def demo_runtime_def ascii_lower_def)
  have b: "date_parse demo_runtime (budget_reset_at (usersStore ?sa ! 0)) = Some 1715511600000"
    by (simp add: demo_store_def analyst_a_def demo_runtime_def demo_dates_def)
  let ?st = "demo_store\<lparr> usersStore := [analyst_a, commander\<lparr> query_budget := 3 \<rparr>] \<rparr>"
  have c: "find_index (\<lambda>u. u_id u = ''local-commander'') (usersStore ?st) = Some 1"
    by (simp add: demo_store_def analyst_a_def commander_def)
  have c': "find_index (\<lambda>u. toLowerCase demo_runtime (username u) =
                              toLowerCase demo_runtime ''commander'') (usersStore ?st) = Some 1"
    by (simp add: demo_store_def analyst_a_def commander_def demo_runtime_def ascii_lower_def)
  have d: "date_parse demo_runtime (budget_reset_at (usersStore ?st ! 1)) = Some 1715511600000"
    by (simp add: demo_store_def commander_def demo_runtime_def demo_dates_def)
  show ?thesis
    using C6_read_resets_budget [OF b, of 1715511600000 "''local-analyst_a''" "''Analyst_A''"]
          C6_read_resets_budget [OF d, of 1715508000000 "''local-commander''" "''commander''"]
          a a' c c'
    by (simp add: Let_def demo_store_def analyst_a_def commander_def demo_runtime_def
                  demo_dates_def)
qed

subsection \<open>Graph view reconciler\<close>


lemma set_map_set_subset: "set (map_set k v m) \<subseteq> insert (k, v) (set m)"
  by (induction m) (auto split: if_splits)

lemma map_fst_map_set:
  "map fst (map_set k v m) = (if k \<in> fst ` set m then map fst m else map fst m @ [k])"
  by (induction m) (auto simp: image_iff split: if_splits)

lemma distinct_map_set: "distinct (map fst m) \<Longrightarrow> distinct (map fst (map_set k v m))"
  by (simp add: map_fst_map_set)

lemma set_map_set_distinct:
  "distinct (map fst m) \<Longrightarrow>
   set (map_set k v m) = insert (k, v) {kv \<in> set m. fst kv \<noteq> k}"
  by (induction m) (force split: if_splits)+

text \<open>
  Among the levels of one kind (all names of inherited members, or none), the order
  in which the loop compares and the rank of the specification agree.
\<close>

lemma rank_coherent:
  assumes "(x \<in> set OBJECT_PROTOTYPE_MEMBERS) = (y \<in> set OBJECT_PROTOTYPE_MEMBERS)"
  shows "js_gt (order_rank rt x) (order_rank rt y) \<Longrightarrow> spec_rank y \<le> spec_rank x"
    and "\<not> js_gt (order_rank rt x) (order_rank rt y) \<Longrightarrow> spec_rank x \<le> spec_rank y"
  using assms member_not_in_tables [of x] member_not_in_tables [of y]
  by (auto simp: order_rank_value js_gt_def split: if_splits)

lemma accessible_same_kind:
  "a \<in> set (filterAccessibleNodes rt user ns) \<Longrightarrow>
   (n_classification_level a \<in> set OBJECT_PROTOTYPE_MEMBERS) =
   (clearance_level user \<in> set OBJECT_PROTOTYPE_MEMBERS)"
  by (auto simp: filterAccessibleNodes_def checkClearance_rule split: if_splits)

lemma choice_inv_step:
  assumes "choice_inv m xs"
      and kind: "\<And>a. a \<in> set (xs @ [x]) \<Longrightarrow>
                  (n_classification_level a \<in> set OBJECT_PROTOTYPE_MEMBERS) = b"
  shows "choice_inv (choose_node rt m x) (xs @ [x])"
proof -
  from assms(1) have d: "distinct (map fst m)"
    and dom: "fst ` set m = n_logical_id ` set xs"
    and ent: "\<And>k v. (k, v) \<in> set m \<Longrightarrow> k = n_logical_id v \<and> v \<in> set xs \<and>
        (\<forall>a \<in> set xs. n_logical_id a = k \<longrightarrow>
           spec_rank (n_classification_level a) \<le> spec_rank (n_classification_level v))"
    unfolding choice_inv_def by auto
  let ?k = "n_logical_id x"
  let ?r = "\<lambda>n. spec_rank (n_classification_level n)"
  let ?o = "\<lambda>n. order_rank rt (n_classification_level n)"
  have same: "(n_classification_level p \<in> set OBJECT_PROTOTYPE_MEMBERS) =
              (n_classification_level q \<in> set OBJECT_PROTOTYPE_MEMBERS)"
    if "p \<in> set (xs @ [x])" "q \<in> set (xs @ [x])" for p q
    using kind [OF that(1)] kind [OF that(2)] by simp
  have replaced: "choice_inv (map_set ?k x m) (xs @ [x])"
    if best: "\<And>a. a \<in> set xs \<Longrightarrow> n_logical_id a = ?k \<Longrightarrow> ?r a \<le> ?r x"
  proof -
    have s: "set (map_set ?k x m) = insert (?k, x) {kv \<in> set m. fst kv \<noteq> ?k}"
      by (rule set_map_set_distinct [OF d])
    have 1: "distinct (map fst (map_set ?k x m))"
      by (rule distinct_map_set [OF d])
    have 2: "fst ` set (map_set ?k x m) = n_logical_id ` set (xs @ [x])"
      using dom by (simp add: s) force
    have 3: "fst kv = n_logical_id (snd kv) \<and> snd kv \<in> set (xs @ [x]) \<and>
        (\<forall>a \<in> set (xs @ [x]). n_logical_id a = fst kv \<longrightarrow> ?r a \<le> ?r (snd kv))"
      if "kv \<in> set (map_set ?k x m)" for kv
    proof (cases "kv = (?k, x)")
      case True
      then show ?thesis using best by auto
    next
      case False
      with that s have "kv \<in> set m" "fst kv \<noteq> ?k" by auto
      then show ?thesis using ent [of "fst kv" "snd kv"] by auto
    qed
    show ?thesis unfolding choice_inv_def using 1 2 3 by blast
  qed
  show ?thesis
  proof (cases "map_of m ?k")
    case None
    then have nk: "?k \<notin> n_logical_id ` set xs"
      using dom by (simp add: map_of_eq_None_iff)
    have eq: "choose_node rt m x = map_set ?k x m"
      using None by (simp add: choose_node_def)
    show ?thesis unfolding eq using nk by (intro replaced) (metis imageI)
  next
    case (Some cur)
    then have mem: "(?k, cur) \<in> set m" by (rule map_of_SomeD)
    with ent have cur: "cur \<in> set (xs @ [x])" by auto
    have x: "x \<in> set (xs @ [x])" by simp
    show ?thesis
    proof (cases "js_gt (?o x) (?o cur)")
      case True
      have eq: "choose_node rt m x = map_set ?k x m"
        using Some True by (simp add: choose_node_def)
      have up: "?r cur \<le> ?r x"
        using rank_coherent(1) [OF same [OF x cur] True] .
      show ?thesis unfolding eq
      proof (rule replaced)
        fix a assume "a \<in> set xs" "n_logical_id a = ?k"
        with ent [OF mem] have "?r a \<le> ?r cur" by force
        with up show "?r a \<le> ?r x" by simp
      qed
    next
      case False
      have eq: "choose_node rt m x = m"
        using Some False by (simp add: choose_node_def)
      have down: "?r x \<le> ?r cur"
        using rank_coherent(2) [OF same [OF x cur] False] .
      have 2: "fst ` set m = n_logical_id ` set (xs @ [x])"
        using dom mem by force
      have 3: "fst kv = n_logical_id (snd kv) \<and> snd kv \<in> set (xs @ [x]) \<and>
          (\<forall>a \<in> set (xs @ [x]). n_logical_id a = fst kv \<longrightarrow> ?r a \<le> ?r (snd kv))"
        if "kv \<in> set m" for kv
      proof -
        have e: "fst kv = n_logical_id (snd kv) \<and> snd kv \<in> set xs \<and>
          (\<forall>a \<in> set xs. n_logical_id a = fst kv \<longrightarrow> ?r a \<le> ?r (snd kv))"
          using ent [of "fst kv" "snd kv"] that by simp
        have "?r x \<le> ?r (snd kv)" if "?k = fst kv"
        proof -
          have "map_of m (fst kv) = Some (snd kv)"
            using d \<open>kv \<in> set m\<close> by (simp add: map_of_eq_Some_iff [OF d])
          with that Some have "snd kv = cur" by simp
          with down show ?thesis by simp
        qed
        with e show ?thesis by auto
      qed
      show ?thesis unfolding eq choice_inv_def using d 2 3 by blast
    qed
  qed
qed

lemma choice_inv_foldl:
  "(\<And>a. a \<in> set xs \<Longrightarrow> (n_classification_level a \<in> set OBJECT_PROTOTYPE_MEMBERS) = b) \<Longrightarrow>
   choice_inv (foldl (choose_node rt) [] xs) xs"
proof (induction xs rule: rev_induct)
  case Nil
  show ?case by (simp add: choice_inv_def)
next
  case (snoc x xs)
  have "choice_inv (foldl (choose_node rt) [] xs) xs"
    by (rule snoc.IH) (simp add: snoc.prems)
  from choice_inv_step [OF this, of x b rt] snoc.prems show ?case by simp
qed

lemma filter_unique_length:
  "distinct (map f xs) \<Longrightarrow> y \<in> f ` set xs \<Longrightarrow> length (filter (\<lambda>x. f x = y) xs) = 1"
proof (induction xs)
  case Nil
  then show ?case by simp
next
  case (Cons a xs)
  show ?case
  proof (cases "f a = y")
    case True
    with Cons.prems have "filter (\<lambda>x. f x = y) xs = []"
      by (simp add: filter_empty_conv) (metis imageI)
    with True show ?thesis by simp
  next
    case False
    with Cons show ?thesis by auto
  qed
qed


lemma virtual_view_nodes:
  "fst (virtual_view rt allNodes accessibleNodes accessibleEdges) =
     map snd (foldl (choose_node rt) [] accessibleNodes)"
  by (simp add: virtual_view_def Let_def map_values_def)

text \<open>
  C7: in virtual mode (the mode taken when it is neither level nor overlay), every
  returned node is one of the user's accessible nodes, whoever the user is; and for
  every accessible node \<open>a\<close> the returned list holds exactly one node with the logical
  id of \<open>a\<close>, whose classification rank (UNCLASSIFIED = 0, CONFIDENTIAL = 1,
  SECRET = 2, any other level 0) is at least the rank of \<open>a\<close>: the maximum among the
  accessible nodes that share the logical id.
\<close>

theorem C7_virtual_view_nodes:
  assumes "opt_mode options = Virtual"
      and "getGraphData rt st user options = (nodes, edges)"
  shows "set nodes \<subseteq> set (filterAccessibleNodes rt user (nodesStore st)) \<and>
         (\<forall>a \<in> set (filterAccessibleNodes rt user (nodesStore st)).
            length (filter (\<lambda>n. n_logical_id n = n_logical_id a) nodes) = 1 \<and>
            (\<forall>n \<in> set nodes. n_logical_id n = n_logical_id a \<longrightarrow>
               spec_rank (n_classification_level a) \<le> spec_rank (n_classification_level n)))"
proof -
  let ?acc = "filterAccessibleNodes rt user (nodesStore st)"
  let ?m = "foldl (choose_node rt) [] ?acc"
  have nodes: "nodes = map snd ?m"
    using assms(1,2)
      virtual_view_nodes [of rt "nodesStore st" ?acc "filterAccessibleEdges rt user (edgesStore st)"]
    by (simp add: getGraphData_def Let_def getAllNodes_def getAllEdges_def)
  have inv: "choice_inv ?m ?acc"
    by (rule choice_inv_foldl) (rule accessible_same_kind)
  then have d: "distinct (map fst ?m)"
    and dom: "fst ` set ?m = n_logical_id ` set ?acc"
    and ent: "\<And>kv. kv \<in> set ?m \<Longrightarrow> fst kv = n_logical_id (snd kv) \<and> snd kv \<in> set ?acc \<and>
        (\<forall>a \<in> set ?acc. n_logical_id a = fst kv \<longrightarrow>
           spec_rank (n_classification_level a) \<le> spec_rank (n_classification_level (snd kv)))"
    unfolding choice_inv_def by auto
  have keys: "map n_logical_id nodes = map fst ?m"
    unfolding nodes using ent by (simp add: comp_def)
  have sub: "set nodes \<subseteq> set ?acc"
    unfolding nodes using ent by auto
  have one: "length (filter (\<lambda>n. n_logical_id n = n_logical_id a) nodes) = 1"
    if a: "a \<in> set ?acc" for a
  proof (rule filter_unique_length)
    show "distinct (map n_logical_id nodes)" using d keys by simp
    have "n_logical_id a \<in> fst ` set ?m" using dom a by auto
    also have "fst ` set ?m = set (map n_logical_id nodes)" using keys by (metis set_map)
    finally show "n_logical_id a \<in> n_logical_id ` set nodes" by simp
  qed
  have best: "spec_rank (n_classification_level a) \<le> spec_rank (n_classification_level n)"
    if "a \<in> set ?acc" "n \<in> set nodes" "n_logical_id n = n_logical_id a" for a n
  proof -
    from that(2) obtain kv where kv: "kv \<in> set ?m" "n = snd kv" unfolding nodes by auto
    with ent [OF kv(1)] that show ?thesis by auto
  qed
  show ?thesis using sub one best by blast
qed

lemma foldl_map_set_values:
  "snd ` set (foldl (\<lambda>m n. map_set (f n) n m) m0 xs) \<subseteq> snd ` set m0 \<union> set xs"
proof (induction xs arbitrary: m0)
  case Nil
  show ?case by simp
next
  case (Cons x xs)
  have "snd ` set (map_set (f x) x m0) \<subseteq> insert x (snd ` set m0)"
    using set_map_set_subset [of "f x" x m0] by force
  with Cons [of "map_set (f x) x m0"] show ?case by auto
qed

lemma index_lookup_mem:
  "map_of (foldl (\<lambda>m n. map_set (f n) n m) [] xs) k = Some v \<Longrightarrow> v \<in> set xs"
  using foldl_map_set_values [of f "[]" xs] by (force dest: map_of_SomeD)

lemma closed_edges_map_set:
  "closed_edges nodes m \<Longrightarrow> source_node_id e \<in> n_id ` set nodes \<Longrightarrow>
   target_node_id e \<in> n_id ` set nodes \<Longrightarrow> closed_edges nodes (map_set k e m)"
  unfolding closed_edges_def using set_map_set_subset [of k e m] by auto

lemma closed_edges_step:
  assumes "closed_edges nodes m"
      and "\<And>k v. map_of logicalToNode k = Some v \<Longrightarrow> v \<in> set nodes"
  shows "closed_edges nodes (repoint_edge rt nodeById logicalToNode m edge)"
  using assms
  by (auto simp: repoint_edge_def Let_def intro!: closed_edges_map_set
           split: option.splits)

lemma closed_edges_foldl:
  assumes "closed_edges nodes m"
      and "\<And>k v. map_of logicalToNode k = Some v \<Longrightarrow> v \<in> set nodes"
  shows "closed_edges nodes (foldl (repoint_edge rt nodeById logicalToNode) m edges)"
  using assms(1)
proof (induction edges arbitrary: m)
  case Nil
  then show ?case by simp
next
  case (Cons e es)
  show ?case
    by (simp, rule Cons.IH, rule closed_edges_step [OF Cons.prems assms(2)])
qed

lemma virtual_view_closed:
  "(nodes, edges) = virtual_view rt allNodes accessibleNodes accessibleEdges \<Longrightarrow>
   e \<in> set edges \<Longrightarrow>
   source_node_id e \<in> n_id ` set nodes \<and> target_node_id e \<in> n_id ` set nodes"
proof -
  assume v: "(nodes, edges) = virtual_view rt allNodes accessibleNodes accessibleEdges"
     and e: "e \<in> set edges"
  let ?l2n = "foldl (\<lambda>m node. map_set (n_logical_id node) node m) [] nodes"
  let ?byId = "foldl (\<lambda>m node. map_set (n_id node) node m) [] allNodes"
  have n: "nodes = map_values (foldl (choose_node rt) [] accessibleNodes)"
    using v by (simp add: virtual_view_def Let_def)
  have ed: "edges = map_values (foldl (repoint_edge rt ?byId ?l2n) [] accessibleEdges)"
    using v by (simp add: virtual_view_def Let_def)
  have "closed_edges nodes (foldl (repoint_edge rt ?byId ?l2n) [] accessibleEdges)"
    by (rule closed_edges_foldl) (auto simp: closed_edges_def dest: index_lookup_mem)
  with e ed show ?thesis by (auto simp: closed_edges_def map_values_def)
qed

text \<open>
  C10: in every view mode (level, overlay, virtual), both endpoints of every returned
  edge are ids of nodes returned by the same call.
\<close>

theorem C10_view_referentially_closed:
  assumes "getGraphData rt st user options = (nodes, edges)" and "e \<in> set edges"
  shows "source_node_id e \<in> n_id ` set nodes \<and> target_node_id e \<in> n_id ` set nodes"
proof (cases "opt_mode options")
  case Virtual
  with assms(1) have "(nodes, edges) = virtual_view rt (getAllNodes st)
      (filterAccessibleNodes rt user (getAllNodes st))
      (filterAccessibleEdges rt user (getAllEdges st))"
    by (simp add: getGraphData_def Let_def)
  from virtual_view_closed [OF this assms(2)] show ?thesis .
next
  case Level
  with assms show ?thesis
    by (auto simp: getGraphData_def level_view_def Let_def)
next
  case Overlay
  with assms show ?thesis
    by (auto simp: getGraphData_def overlay_view_def Let_def)
qed

lemma demo_virtual_view:
  "getGraphData demo_runtime demo_store commander virtual_options =
     ([target_uav_1_S, target_group_sector_b_C, sensor_radar_a_C, command_center_alpha_S,
       weather_note_U],
      [rel_track_1_C\<lparr> target_node_id := ''target_uav_1_SECRET'' \<rparr>, rel_detect_1_S,
       rel_command_1_S])"
  by code_simp

lemma demo_accessible:
  "filterAccessibleNodes demo_runtime commander (nodesStore demo_store) =
     [target_uav_1_C, target_uav_1_S, target_group_sector_b_C, sensor_radar_a_C,
      command_center_alpha_S, weather_note_U]"
  by code_simp

theorem C7_virtual_view_nodes_witness:
  "opt_mode virtual_options = Virtual \<and>
   target_uav_1_C \<in> set (filterAccessibleNodes demo_runtime commander (nodesStore demo_store)) \<and>
   target_uav_1_C \<notin> set (fst (getGraphData demo_runtime demo_store commander virtual_options)) \<and>
   length (filter (\<lambda>n. n_logical_id n = n_logical_id target_uav_1_C)
             (fst (getGraphData demo_runtime demo_store commander virtual_options))) = 1 \<and>
   fst (getGraphData demo_runtime demo_store commander virtual_options) =
     [target_uav_1_S, target_group_sector_b_C, sensor_radar_a_C, command_center_alpha_S,
      weather_note_U]"
proof -
  have m: "opt_mode virtual_options = Virtual"
    by (simp add: virtual_options_def)
  have a: "target_uav_1_C \<in> set (filterAccessibleNodes demo_runtime commander (nodesStore demo_store))"
    by (simp add: demo_accessible)
  have n: "target_uav_1_C \<notin> set [target_uav_1_S, target_group_sector_b_C, sensor_radar_a_C,
                                     command_center_alpha_S, weather_note_U]"
    by (simp add: example_defs)
  from C7_virtual_view_nodes [OF m demo_virtual_view] m a n demo_virtual_view
  show ?thesis by auto
qed

theorem C10_view_referentially_closed_witness:
  "rel_track_1_C\<lparr> target_node_id := ''target_uav_1_SECRET'' \<rparr>
     \<in> set (snd (getGraphData demo_runtime demo_store commander virtual_options)) \<and>
   ''sensor_radar_a_CONFIDENTIAL''
     \<in> n_id ` set (fst (getGraphData demo_runtime demo_store commander virtual_options)) \<and>
   ''target_uav_1_SECRET''
     \<in> n_id ` set (fst (getGraphData demo_runtime demo_store commander virtual_options))"
proof -
  let ?e = "rel_track_1_C\<lparr> target_node_id := ''target_uav_1_SECRET'' \<rparr>"
  have e: "?e \<in> set [?e, rel_detect_1_S, rel_command_1_S]"
    by simp
  have s: "source_node_id ?e = ''sensor_radar_a_CONFIDENTIAL''"
    and t: "target_node_id ?e = ''target_uav_1_SECRET''"
    by (simp_all add: rel_track_1_C_def mk_edge_def)
  from C10_view_referentially_closed [OF demo_virtual_view e] e s t
  show ?thesis by (simp add: demo_virtual_view)
qed

subsection \<open>Level export and import\<close>






lemma str_or_Some [simp]: "s \<noteq> [] \<Longrightarrow> str_or (Some s) d = s"
  by (simp add: str_or_def)









subsection \<open>Query execution pipeline\<close>

lemma set_add_not_Nil [simp]: "set_add x xs \<noteq> []"
  by (auto simp: set_add_def)

lemma entity_types_nonempty: "e \<in> set ENTITY_KEYWORDS \<Longrightarrow> ek_entityType e \<noteq> []"
  by (auto simp: ENTITY_KEYWORDS_def)

lemma find_Some_mem: "find P xs = Some x \<Longrightarrow> x \<in> set xs"
  by (induction xs) (auto split: if_splits)

lemma detectEntity_type:
  "truthy_str (de_entityType (detectEntity lq)) = (de_entityType (detectEntity lq) \<noteq> None)"
  by (auto simp: detectEntity_def truthy_str_def split: option.splits
           dest!: find_Some_mem entity_types_nonempty)

lemma detectEntity_no_type:
  "de_entityType (detectEntity lq) = None \<Longrightarrow> de_category (detectEntity lq) = None"
  by (auto simp: detectEntity_def split: option.splits)

lemma parse_fields_entityType:
  "entityType (parse_fields rt q) = de_entityType (detectEntity (toLowerCase rt q))"
  by (simp add: parse_fields_def Let_def)

lemma parse_fields_statusFilters:
  "statusFilters (parse_fields rt q) = fst (extractStatusFilters (toLowerCase rt q))"
  by (simp add: parse_fields_def Let_def)

lemma parse_fields_comparisons:
  "comparisons (parse_fields rt q) = extractComparisons rt (toLowerCase rt q)"
  by (simp add: parse_fields_def Let_def)

lemma parse_fields_categoryFilters:
  "categoryFilters (parse_fields rt q) =
     (if truthy_str (de_category (detectEntity (toLowerCase rt q)))
      then set_add (str_or (de_category (detectEntity (toLowerCase rt q))) [])
             (fst (extractCategoryFilters rt (toLowerCase rt q)))
      else fst (extractCategoryFilters rt (toLowerCase rt q)))"
  by (simp add: parse_fields_def Let_def)

lemma parse_None_iff:
  "parseNaturalLanguage rt q = None \<longleftrightarrow>
     de_entityType (detectEntity (toLowerCase rt q)) = None \<and>
     fst (extractCategoryFilters rt (toLowerCase rt q)) = [] \<and>
     fst (extractStatusFilters (toLowerCase rt q)) = [] \<and>
     extractComparisons rt (toLowerCase rt q) = []"
proof -
  have "parseNaturalLanguage rt q = None \<longleftrightarrow>
      \<not> truthy_str (entityType (parse_fields rt q)) \<and> categoryFilters (parse_fields rt q) = [] \<and>
      statusFilters (parse_fields rt q) = [] \<and> comparisons (parse_fields rt q) = []"
    by (simp add: parseNaturalLanguage_def Let_def)
  also have "\<dots> \<longleftrightarrow> de_entityType (detectEntity (toLowerCase rt q)) = None \<and>
     fst (extractCategoryFilters rt (toLowerCase rt q)) = [] \<and>
     fst (extractStatusFilters (toLowerCase rt q)) = [] \<and>
     extractComparisons rt (toLowerCase rt q) = []"
    unfolding parse_fields_entityType parse_fields_statusFilters parse_fields_comparisons
      parse_fields_categoryFilters detectEntity_type
    using detectEntity_no_type [of "toLowerCase rt q"]
    by (auto simp: truthy_str_def)
  finally show ?thesis .
qed

text \<open>
  C5, as the code has it. The parser returns no parsed query exactly when it extracts
  no entity type, no category filter, no status filter and no attribute comparison.
  The pipeline parses only after the budget gate: for a user whose budget is above 0
  and a text that is not recognised it returns (it does not raise) the result with
  \<open>success = false\<close>, the fixed message "could not recognise the query" and the two
  static tips, and leaves the caller's user object and the whole store, so the audit
  log and the stored budget, as they were. For a user whose budget is exhausted the
  pipeline never parses: it writes the audit entry of C4.
\<close>

theorem C5_unrecognized:
  "(parseNaturalLanguage rt queryText = None \<longleftrightarrow>
      de_entityType (detectEntity (toLowerCase rt queryText)) = None \<and>
      fst (extractCategoryFilters rt (toLowerCase rt queryText)) = [] \<and>
      fst (extractStatusFilters (toLowerCase rt queryText)) = [] \<and>
      extractComparisons rt (toLowerCase rt queryText) = []) \<and>
   (checkQueryBudget user \<and> parseNaturalLanguage rt queryText = None \<longrightarrow>
      executeNaturalLanguageQuery rt env st user queryText =
        (\<lparr> qr_success = False, qr_data = None, qr_aggregated = None,
            qr_error = Some msg_unrecognized, qr_denialReason = None,
            qr_explanation = Some
              \<lparr> ex_raw = queryText, ex_entity = None, ex_filters = [], ex_comparisons = [],
                ex_timeWindow = None, ex_timeRange = None, ex_geo = None, ex_limit = None,
                ex_tips = [tip_name_entity, tip_add_context], ex_warnings = [],
                ex_intent = IntentList, ex_logic = LogicAND, ex_recognized = [] \<rparr> \<rparr>,
         user, st))"
  by (simp add: parse_None_iff [symmetric] executeNaturalLanguageQuery_def
      unrecognized_explanation_def)

text \<open>
  The claim of C5 as it is written fails for a user without budget: the text
  \<open>hello\<close> is not recognised by the parser, and the pipeline, run for \<open>analyst_a\<close>
  with budget 0, writes an audit entry and returns the budget denial.
\<close>

theorem C5_counterexample:
  "parseNaturalLanguage demo_runtime ''hello'' = None \<and>
   auditLogStore demo_store = [] \<and>
   map denial_reason
     (auditLogStore (snd (snd (executeNaturalLanguageQuery demo_runtime demo_env demo_store
        (analyst_a\<lparr> query_budget := 0 \<rparr>) ''hello'')))) = [Some BUDGET_EXHAUSTED] \<and>
   qr_error (fst (executeNaturalLanguageQuery demo_runtime demo_env demo_store
        (analyst_a\<lparr> query_budget := 0 \<rparr>) ''hello'')) = Some msg_budget_exhausted"
proof -
  have "parseNaturalLanguage demo_runtime ''hello'' = None"
    by code_simp
  then show ?thesis
    by (simp add: executeNaturalLanguageQuery_def checkQueryBudget_def logAuditEntry_def
        insertAuditLog_def demo_store_def)
qed

theorem C5_unrecognized_witness:
  "checkQueryBudget analyst_a \<and>
   parseNaturalLanguage demo_runtime ''hello'' = None \<and>
   qr_error (fst (executeNaturalLanguageQuery demo_runtime demo_env demo_store analyst_a ''hello''))
     = Some msg_unrecognized \<and>
   snd (executeNaturalLanguageQuery demo_runtime demo_env demo_store analyst_a ''hello'')
     = (analyst_a, demo_store)"
proof -
  have b: "checkQueryBudget analyst_a"
    by (simp add: checkQueryBudget_def analyst_a_def)
  have p: "parseNaturalLanguage demo_runtime ''hello'' = None"
    by code_simp
  from C5_unrecognized [of demo_runtime "''hello''" analyst_a demo_env demo_store] b p
  show ?thesis by simp
qed

text \<open>
  C4: for a user whose \<open>query_budget\<close> is not above 0 the pipeline returns the denial
  (\<open>success = false\<close>) and prepends one audit entry with \<open>result_count = 0\<close>,
  \<open>access_granted = false\<close> and reason BUDGET_EXHAUSTED; nothing else of the store
  changes, so the stored budget is what it was, and so is the caller's user object.
\<close>

theorem C4_budget_exhausted:
  assumes "\<not> query_budget user > 0"
  shows "executeNaturalLanguageQuery rt env st user queryText =
     (\<lparr> qr_success = False, qr_data = None, qr_aggregated = None,
         qr_error = Some msg_budget_exhausted, qr_denialReason = Some msg_budget_denial,
         qr_explanation = None \<rparr>,
      user,
      st\<lparr> auditLogStore :=
           \<lparr> a_id = generateId ''audit'' (env_audit_rand env), user_id = u_id user,
             query_text = queryText, query_type = ''NL_QUERY'', result_count = 0,
             access_granted = False, denial_reason = Some BUDGET_EXHAUSTED,
             a_created_at = env_audit_time env \<rparr> # auditLogStore st \<rparr>)"
  using assms
  by (simp add: executeNaturalLanguageQuery_def checkQueryBudget_def logAuditEntry_def
      insertAuditLog_def)

theorem C4_budget_exhausted_witness:
  "fst (executeNaturalLanguageQuery demo_runtime demo_env demo_store
          (analyst_a\<lparr> query_budget := 0 \<rparr>) ''uav'') =
     \<lparr> qr_success = False, qr_data = None, qr_aggregated = None,
       qr_error = Some msg_budget_exhausted, qr_denialReason = Some msg_budget_denial,
       qr_explanation = None \<rparr> \<and>
   usersStore (snd (snd (executeNaturalLanguageQuery demo_runtime demo_env demo_store
          (analyst_a\<lparr> query_budget := 0 \<rparr>) ''uav''))) = usersStore demo_store \<and>
   map (\<lambda>a. (result_count a, access_granted a, denial_reason a))
     (auditLogStore (snd (snd (executeNaturalLanguageQuery demo_runtime demo_env demo_store
          (analyst_a\<lparr> query_budget := 0 \<rparr>) ''uav'')))) = [(0, False, Some BUDGET_EXHAUSTED)]"
proof -
  have h: "\<not> query_budget (analyst_a\<lparr> query_budget := 0 \<rparr>) > 0"
    by simp
  from C4_budget_exhausted [OF h, of demo_runtime demo_env demo_store "''uav''"]
  show ?thesis by (simp add: demo_store_def)
qed

lemma decrementBudget_audit [simp]:
  "auditLogStore (decrementBudget rt now ident st) = auditLogStore st"
  by (simp add: decrementBudget_def Let_def split: option.splits)

text \<open>
  C3: for a query that passes the budget gate and the parser and whose final filtered
  list has N nodes. If 0 < N < 2, the result is a success whose data is the aggregate
  of the count N and the fixed message (no node record), flagged aggregated, with
  denial reason K_ANONYMITY, and the audit entry written has \<open>access_granted = true\<close>,
  \<open>result_count = N\<close> and reason K_ANONYMITY. If N \<ge> 2, the result is a success with
  the full filtered list.
\<close>

theorem C3_k_anonymity_gate:
  assumes "checkQueryBudget user"
      and "parseNaturalLanguage rt queryText = Some parsedQuery"
      and "applyQueryFilters rt user parsedQuery (nodesStore st) = filteredNodes"
      and "executeNaturalLanguageQuery rt env st user queryText = (result, user', st')"
  shows "(0 < length filteredNodes \<and> length filteredNodes < 2 \<longrightarrow>
            qr_success result \<and>
            qr_data result = Some (Aggregate (length filteredNodes) msg_k_anonymity) \<and>
            qr_aggregated result = Some True \<and>
            qr_denialReason result = Some K_ANONYMITY \<and>
            auditLogStore st' =
              \<lparr> a_id = generateId ''audit'' (env_audit_rand env), user_id = u_id user,
                query_text = queryText, query_type = ''NL_QUERY'',
                result_count = length filteredNodes, access_granted = True,
                denial_reason = Some K_ANONYMITY,
                a_created_at = env_audit_time env \<rparr> # auditLogStore st) \<and>
         (length filteredNodes \<ge> 2 \<longrightarrow>
            qr_success result \<and> qr_data result = Some (Records filteredNodes))"
proof -
  have run: "runParsedQuery rt env st user queryText parsedQuery = (result, user', st')"
    using assms(1,2,4) by (simp add: executeNaturalLanguageQuery_def)
  have small: "qr_success result \<and>
            qr_data result = Some (Aggregate (length filteredNodes) msg_k_anonymity) \<and>
            qr_aggregated result = Some True \<and>
            qr_denialReason result = Some K_ANONYMITY \<and>
            auditLogStore st' =
              \<lparr> a_id = generateId ''audit'' (env_audit_rand env), user_id = u_id user,
                query_text = queryText, query_type = ''NL_QUERY'',
                result_count = length filteredNodes, access_granted = True,
                denial_reason = Some K_ANONYMITY,
                a_created_at = env_audit_time env \<rparr> # auditLogStore st"
    if "0 < length filteredNodes" "length filteredNodes < 2"
  proof -
    from that have "length filteredNodes \<noteq> 0" "\<not> checkKAnonymity (length filteredNodes) 2"
      by (auto simp: checkKAnonymity_def)
    with run assms(3) show ?thesis
      by (auto simp: runParsedQuery_def Let_def getAllNodes_def logAuditEntry_def
            insertAuditLog_def)
  qed
  have large: "qr_success result \<and> qr_data result = Some (Records filteredNodes)"
    if "length filteredNodes \<ge> 2"
  proof -
    from that have "length filteredNodes \<noteq> 0" "checkKAnonymity (length filteredNodes) 2"
      by (auto simp: checkKAnonymity_def)
    with run assms(3) show ?thesis
      by (auto simp: runParsedQuery_def Let_def getAllNodes_def)
  qed
  from small large show ?thesis by blast
qed

lemma demo_uav_parse: "parseNaturalLanguage demo_runtime ''uav'' \<noteq> None"
  by code_simp

lemma demo_uav_filtered:
  "applyQueryFilters demo_runtime analyst_a (the (parseNaturalLanguage demo_runtime ''uav''))
     (nodesStore demo_store) = [target_uav_1_C]"
  "applyQueryFilters demo_runtime commander (the (parseNaturalLanguage demo_runtime ''uav''))
     (nodesStore demo_store) = [target_uav_1_C, target_uav_1_S]"
  by code_simp+

theorem C3_k_anonymity_gate_witness:
  "qr_data (fst (executeNaturalLanguageQuery demo_runtime demo_env demo_store analyst_a ''uav''))
     = Some (Aggregate 1 msg_k_anonymity) \<and>
   qr_denialReason (fst (executeNaturalLanguageQuery demo_runtime demo_env demo_store analyst_a ''uav''))
     = Some K_ANONYMITY \<and>
   map (\<lambda>a. (result_count a, access_granted a, denial_reason a))
     (auditLogStore (snd (snd (executeNaturalLanguageQuery demo_runtime demo_env demo_store
        analyst_a ''uav'')))) = [(1, True, Some K_ANONYMITY)] \<and>
   qr_data (fst (executeNaturalLanguageQuery demo_runtime demo_env demo_store commander ''uav''))
     = Some (Records [target_uav_1_C, target_uav_1_S])"
proof -
  let ?pq = "the (parseNaturalLanguage demo_runtime ''uav'')"
  have p: "parseNaturalLanguage demo_runtime ''uav'' = Some ?pq"
    using demo_uav_parse by simp
  have ba: "checkQueryBudget analyst_a" and bc: "checkQueryBudget commander"
    by (simp_all add: checkQueryBudget_def analyst_a_def commander_def)
  let ?ra = "executeNaturalLanguageQuery demo_runtime demo_env demo_store analyst_a ''uav''"
  let ?rc = "executeNaturalLanguageQuery demo_runtime demo_env demo_store commander ''uav''"
  have ea: "?ra = (fst ?ra, fst (snd ?ra), snd (snd ?ra))"
    and ec: "?rc = (fst ?rc, fst (snd ?rc), snd (snd ?rc))"
    by simp_all
  from C3_k_anonymity_gate [OF ba p demo_uav_filtered(1) ea]
       C3_k_anonymity_gate [OF bc p demo_uav_filtered(2) ec]
  show ?thesis by (simp add: demo_store_def)
qed

lemma applyQueryFilters_logic:
  "applyQueryFilters rt user (parsedQuery\<lparr> logicOperator := op \<rparr>) allNodes =
   applyQueryFilters rt user parsedQuery allNodes"
  by (simp add: applyQueryFilters_def Let_def)

lemma buildExplanation_logic:
  "buildExplanation rt (parsedQuery\<lparr> logicOperator := op \<rparr>) q =
   (buildExplanation rt parsedQuery q)\<lparr> ex_logic := op \<rparr>"
  by (simp add: buildExplanation_def Let_def)

lemma filter_entity_type_passes:
  "filter_entity_type et xs = filter (passes (filter_entity_type et)) xs"
  by (auto simp: passes_def filter_entity_type_def split: option.splits if_splits intro!: filter_cong)

lemma filterAccessibleNodes_passes:
  "filterAccessibleNodes rt user xs = filter (passes (filterAccessibleNodes rt user)) xs"
  by (auto simp: passes_def filterAccessibleNodes_def split: option.splits if_splits intro!: filter_cong)

lemma filter_sectors_passes:
  "filter_sectors rt sf xs = filter (passes (filter_sectors rt sf)) xs"
  by (auto simp: passes_def filter_sectors_def Let_def split: option.splits if_splits intro!: filter_cong)

lemma filter_level_passes:
  "filter_level lf xs = filter (passes (filter_level lf)) xs"
  by (auto simp: passes_def filter_level_def split: option.splits if_splits intro!: filter_cong)

lemma filter_time_window_passes:
  "filter_time_window rt tw xs = filter (passes (filter_time_window rt tw)) xs"
  by (auto simp: passes_def filter_time_window_def Let_def split: option.splits if_splits intro!: filter_cong)

lemma filter_time_range_passes:
  "filter_time_range rt tr xs = filter (passes (filter_time_range rt tr)) xs"
  by (auto simp: passes_def filter_time_range_def split: option.splits if_splits intro!: filter_cong)

lemma filter_status_passes:
  "filter_status rt sf xs = filter (passes (filter_status rt sf)) xs"
  by (auto simp: passes_def filter_status_def Let_def split: option.splits if_splits intro!: filter_cong)

lemma filter_category_passes:
  "filter_category rt cf xs = filter (passes (filter_category rt cf)) xs"
  by (auto simp: passes_def filter_category_def split: option.splits if_splits intro!: filter_cong)

lemma filter_geo_passes:
  "filter_geo rt gf xs = filter (passes (filter_geo rt gf)) xs"
  by (auto simp: passes_def filter_geo_def split: option.splits if_splits intro!: filter_cong)

lemma filter_comparisons_passes:
  "filter_comparisons rt cs xs = filter (passes (filter_comparisons rt cs)) xs"
  by (auto simp: passes_def filter_comparisons_def split: option.splits if_splits intro!: filter_cong)

lemma applyQueryFilters_flat_and:
  "applyQueryFilters rt user parsedQuery allNodes =
     apply_limit rt (limit parsedQuery)
       (filter (\<lambda>node.
          passes (filter_entity_type (entityType parsedQuery)) node \<and>
          passes (filterAccessibleNodes rt user) node \<and>
          passes (filter_sectors rt (sectorFilters parsedQuery)) node \<and>
          passes (filter_level (levelFilter parsedQuery)) node \<and>
          passes (filter_time_window rt (timeWindowHours parsedQuery)) node \<and>
          passes (filter_time_range rt (timeRange parsedQuery)) node \<and>
          passes (filter_status rt (statusFilters parsedQuery)) node \<and>
          passes (filter_category rt (categoryFilters parsedQuery)) node \<and>
          passes (filter_geo rt (geoFilter parsedQuery)) node \<and>
          passes (filter_comparisons rt (comparisons parsedQuery)) node) allNodes)"
proof -
  have "applyQueryFilters rt user parsedQuery allNodes =
     apply_limit rt (limit parsedQuery)
      (filter (passes (filter_comparisons rt (comparisons parsedQuery)))
      (filter (passes (filter_geo rt (geoFilter parsedQuery)))
      (filter (passes (filter_category rt (categoryFilters parsedQuery)))
      (filter (passes (filter_status rt (statusFilters parsedQuery)))
      (filter (passes (filter_time_range rt (timeRange parsedQuery)))
      (filter (passes (filter_time_window rt (timeWindowHours parsedQuery)))
      (filter (passes (filter_level (levelFilter parsedQuery)))
      (filter (passes (filter_sectors rt (sectorFilters parsedQuery)))
      (filter (passes (filterAccessibleNodes rt user))
      (filter (passes (filter_entity_type (entityType parsedQuery))) allNodes))))))))))"
    unfolding applyQueryFilters_def Let_def
    by (simp only: filter_entity_type_passes [symmetric] filterAccessibleNodes_passes [symmetric]
        filter_sectors_passes [symmetric] filter_level_passes [symmetric]
        filter_time_window_passes [symmetric] filter_time_range_passes [symmetric]
        filter_status_passes [symmetric] filter_category_passes [symmetric]
        filter_geo_passes [symmetric] filter_comparisons_passes [symmetric])
  also have "\<dots> = apply_limit rt (limit parsedQuery)
       (filter (\<lambda>node.
          passes (filter_entity_type (entityType parsedQuery)) node \<and>
          passes (filterAccessibleNodes rt user) node \<and>
          passes (filter_sectors rt (sectorFilters parsedQuery)) node \<and>
          passes (filter_level (levelFilter parsedQuery)) node \<and>
          passes (filter_time_window rt (timeWindowHours parsedQuery)) node \<and>
          passes (filter_time_range rt (timeRange parsedQuery)) node \<and>
          passes (filter_status rt (statusFilters parsedQuery)) node \<and>
          passes (filter_category rt (categoryFilters parsedQuery)) node \<and>
          passes (filter_geo rt (geoFilter parsedQuery)) node \<and>
          passes (filter_comparisons rt (comparisons parsedQuery)) node) allNodes)"
    by (simp only: filter_filter conj_assoc conj_commute conj_left_commute) 
  finally show ?thesis .
qed

text \<open>
  C8: two parsed queries that differ only in the logic-operator flag give the same
  filtered nodes. The filter stage is the flat conjunction of the present filters: a
  node is kept exactly when it passes the entity-type test, the access policy and each
  of the filter blocks (a block whose filter is absent lets every node pass), and the
  limit, when present, is applied to the nodes kept; none of the blocks reads the flag.
  The pipeline run on the two parsed queries returns the same data, the same user
  object and the same store (audit entry and budget); the results differ in the field
  \<open>logic\<close> of the explanation only.
\<close>

theorem C8_logic_operator_ignored:
  "applyQueryFilters rt user (parsedQuery\<lparr> logicOperator := op \<rparr>) allNodes =
     applyQueryFilters rt user parsedQuery allNodes \<and>
   applyQueryFilters rt user parsedQuery allNodes =
     apply_limit rt (limit parsedQuery)
       (filter (\<lambda>node.
          passes (filter_entity_type (entityType parsedQuery)) node \<and>
          passes (filterAccessibleNodes rt user) node \<and>
          passes (filter_sectors rt (sectorFilters parsedQuery)) node \<and>
          passes (filter_level (levelFilter parsedQuery)) node \<and>
          passes (filter_time_window rt (timeWindowHours parsedQuery)) node \<and>
          passes (filter_time_range rt (timeRange parsedQuery)) node \<and>
          passes (filter_status rt (statusFilters parsedQuery)) node \<and>
          passes (filter_category rt (categoryFilters parsedQuery)) node \<and>
          passes (filter_geo rt (geoFilter parsedQuery)) node \<and>
          passes (filter_comparisons rt (comparisons parsedQuery)) node) allNodes) \<and>
   runParsedQuery rt env st user queryText (parsedQuery\<lparr> logicOperator := op \<rparr>) =
     (case runParsedQuery rt env st user queryText parsedQuery of
        (result, user', st') \<Rightarrow>
          (result\<lparr> qr_explanation := map_option (\<lambda>e. e\<lparr> ex_logic := op \<rparr>) (qr_explanation result) \<rparr>,
           user', st'))"
proof (intro conjI)
  show "applyQueryFilters rt user (parsedQuery\<lparr> logicOperator := op \<rparr>) allNodes =
     applyQueryFilters rt user parsedQuery allNodes"
    by (rule applyQueryFilters_logic)
  show "runParsedQuery rt env st user queryText (parsedQuery\<lparr> logicOperator := op \<rparr>) =
     (case runParsedQuery rt env st user queryText parsedQuery of
        (result, user', st') \<Rightarrow>
          (result\<lparr> qr_explanation := map_option (\<lambda>e. e\<lparr> ex_logic := op \<rparr>) (qr_explanation result) \<rparr>,
           user', st'))"
    by (simp add: applyQueryFilters_logic buildExplanation_logic runParsedQuery_def Let_def)
qed (rule applyQueryFilters_flat_and)

theorem C8_logic_operator_ignored_witness:
  "applyQueryFilters demo_runtime commander
     ((the (parseNaturalLanguage demo_runtime ''uav''))\<lparr> logicOperator := LogicOR \<rparr>)
     (nodesStore demo_store) = [target_uav_1_C, target_uav_1_S] \<and>
   logicOperator (the (parseNaturalLanguage demo_runtime ''uav'')) = LogicAND"
proof -
  have l: "logicOperator (the (parseNaturalLanguage demo_runtime ''uav'')) = LogicAND"
    by code_simp
  from C8_logic_operator_ignored [where rt = demo_runtime and user = commander
          and parsedQuery = "the (parseNaturalLanguage demo_runtime ''uav'')" and op = LogicOR
          and allNodes = "nodesStore demo_store" and env = demo_env and st = demo_store
          and queryText = "''uav''"]
       demo_uav_filtered(2) l
  show ?thesis by simp
qed

end
